theory Spec2Isabelle
  imports Main
begin

section \<open>Python strings\<close>

text \<open>
  A Python \<^verbatim>\<open>str\<close> is a sequence of Unicode code points, and \<^verbatim>\<open>len\<close>, slicing and
  \<^verbatim>\<open>count\<close> work on code points. A string is therefore a list of code points; an ASCII
  literal is written \<open>of_ascii ''...''\<close>, the Chinese sentinels of the source are written
  out by their code points.
\<close>

type_synonym ustr = "nat list"

definition of_ascii :: "string \<Rightarrow> ustr" where
  "of_ascii s = map of_char s"

text \<open>The two-character sentinel (U+6682 U+65E0, "none yet") of the analyzer.\<close>

definition zanwu :: ustr where
  "zanwu = [26242, 26080]"

text \<open>The five-character sentinel ("no summary information") for an empty summary.\<close>

definition no_summary :: ustr where
  "no_summary = [26080, 25688, 35201, 20449, 24687]"

text \<open>\<^verbatim>\<open>str.isspace\<close>: the code points that \<^verbatim>\<open>str.strip()\<close> removes.\<close>

definition py_isspace :: "nat \<Rightarrow> bool" where
  "py_isspace c \<longleftrightarrow>
     (9 \<le> c \<and> c \<le> 13) \<or> (28 \<le> c \<and> c \<le> 32) \<or> c = 133 \<or> c = 160 \<or> c = 5760 \<or>
     (8192 \<le> c \<and> c \<le> 8202) \<or> c = 8232 \<or> c = 8233 \<or> c = 8239 \<or> c = 8287 \<or> c = 12288"

definition py_strip :: "ustr \<Rightarrow> ustr" where
  "py_strip s = rev (dropWhile py_isspace (rev (dropWhile py_isspace s)))"

text \<open>\<^verbatim>\<open>s.split(c)\<close> for a one-character separator: never the empty list.\<close>

fun py_split :: "nat \<Rightarrow> ustr \<Rightarrow> ustr list" where
  "py_split c [] = [[]]"
| "py_split c (x # xs) =
     (if x = c then [] # py_split c xs
      else (case py_split c xs of w # ws \<Rightarrow> (x # w) # ws | [] \<Rightarrow> [[x]]))"

text \<open>\<^verbatim>\<open>s.count(c)\<close> for a one-character argument.\<close>

definition py_count :: "nat \<Rightarrow> ustr \<Rightarrow> nat" where
  "py_count c s = length (filter (\<lambda>x. x = c) s)"

definition py_startswith :: "ustr \<Rightarrow> ustr \<Rightarrow> bool" where
  "py_startswith s pre \<longleftrightarrow> take (length pre) s = pre"

text \<open>
  \<^verbatim>\<open>s.replace(old, '')\<close> for a non-empty \<open>old\<close>: every occurrence found scanning from the
  left is removed, the scan resuming after it.
\<close>

function py_remove :: "ustr \<Rightarrow> ustr \<Rightarrow> ustr" where
  "py_remove old [] = []"
| "py_remove old (c # cs) =
     (if old \<noteq> [] \<and> py_startswith (c # cs) old
      then py_remove old (drop (length old) (c # cs))
      else c # py_remove old cs)"
  by pat_completeness auto
termination
  by (relation "measure (\<lambda>(old, s). length s)") (auto simp: py_startswith_def)

text \<open>\<^verbatim>\<open>s.replace('\n', ' ')\<close> and its like: one character for another.\<close>

definition py_replace_char :: "nat \<Rightarrow> nat \<Rightarrow> ustr \<Rightarrow> ustr" where
  "py_replace_char a b s = map (\<lambda>x. if x = a then b else x) s"

section \<open>Date normalisation: \<^verbatim>\<open>PaperAnalyzer._format_publish_date\<close>\<close>

text \<open>
  The regular expression \<^verbatim>\<open>(\d{4}-\d{2}-\d{2})\<close> matches exactly ten characters. The class
  \<^verbatim>\<open>\d\<close> of Python's \<^verbatim>\<open>re\<close> on a \<^verbatim>\<open>str\<close> is the set of Unicode decimal digits, a superset of
  \<^verbatim>\<open>0-9\<close>; it is the parameter \<open>dg\<close>, so that what is proved holds for every such class.
  \<open>ascii_digit\<close> is the class \<^verbatim>\<open>[0-9]\<close>, used where a concrete input is evaluated.
\<close>

definition ascii_digit :: "nat \<Rightarrow> bool" where
  "ascii_digit c \<longleftrightarrow> 48 \<le> c \<and> c \<le> 57"

fun date_shape :: "(nat \<Rightarrow> bool) \<Rightarrow> ustr \<Rightarrow> bool" where
  "date_shape dg [y1, y2, y3, y4, h1, m1, m2, h2, d1, d2] \<longleftrightarrow>
     dg y1 \<and> dg y2 \<and> dg y3 \<and> dg y4 \<and> h1 = 45 \<and> dg m1 \<and> dg m2 \<and> h2 = 45 \<and> dg d1 \<and> dg d2"
| "date_shape dg _ \<longleftrightarrow> False"

text \<open>\<^verbatim>\<open>re.search\<close>: the leftmost position at which the pattern matches, and group 1 there.\<close>

fun re_search_date :: "(nat \<Rightarrow> bool) \<Rightarrow> ustr \<Rightarrow> ustr option" where
  "re_search_date dg [] = None"
| "re_search_date dg (c # cs) =
     (if date_shape dg (take 10 (c # cs)) then Some (take 10 (c # cs))
      else re_search_date dg cs)"

text \<open>
  \<^verbatim>\<open>date_str.split('T')[0]\<close> would raise IndexError on an empty list, which the enclosing
  \<^verbatim>\<open>try\<close> turns into returning \<^verbatim>\<open>date_str\<close>; \<open>py_split\<close> never returns one.
\<close>

definition format_publish_date :: "(nat \<Rightarrow> bool) \<Rightarrow> ustr \<Rightarrow> ustr" where
  "format_publish_date dg date_str =
     (if date_str = [] \<or> date_str = zanwu then zanwu
      else if 84 \<in> set date_str
        then (case py_split 84 date_str of date_part # _ \<Rightarrow> date_part | [] \<Rightarrow> date_str)
      else if length date_str = 10 \<and> py_count 45 date_str = 2 then date_str
      else (case re_search_date dg date_str of Some m \<Rightarrow> m | None \<Rightarrow> date_str))"

section \<open>The data model\<close>

text \<open>
  \<^verbatim>\<open>Paper\<close> (the analyzer's input) and \<^verbatim>\<open>AnalysisResult\<close> are classes of the modules
  \<^verbatim>\<open>models.paper\<close> and \<^verbatim>\<open>models.report\<close>. The analyzer reads and writes the fields below,
  all of them strings.
\<close>

record paper =
  p_id :: ustr
  title :: ustr
  translation :: ustr
  url :: ustr
  authors :: ustr
  publish_date :: ustr
  summary :: ustr
  github_repo :: ustr
  project_page :: ustr

record analysis_result =
  r_id :: ustr
  title_en :: ustr
  title_zh :: ustr
  r_url :: ustr
  r_authors :: ustr
  r_publish_date :: ustr
  summary_en :: ustr
  summary_zh :: ustr
  r_github_repo :: ustr
  r_project_page :: ustr
  model_function :: ustr

definition canonical :: "paper \<Rightarrow> bool" where
  \<comment> \<open>Modelled from the spec: the invariant of a CanonicalPaper, which the absent
      \<^verbatim>\<open>models.paper\<close> carries: the id and the title are required and not empty, and the
      translation is the title when no translation was produced, so it is not empty either.
      The cleaner writes exactly such records (\<^verbatim>\<open>_extract_paper_info\<close>).\<close>
  "canonical p \<longleftrightarrow> p_id p \<noteq> [] \<and> title p \<noteq> [] \<and> translation p \<noteq> []"

section \<open>Parsing the assistant's reply: \<^verbatim>\<open>PaperAnalyzer._parse_ai_response\<close>\<close>

text \<open>
  The three line labels: two asterisks, the Chinese label, two asterisks and the full-width
  colon U+FF1A. They label the Chinese title, the Chinese summary and the model function.
\<close>

definition label_title_zh :: ustr where
  "label_title_zh = [42, 42, 26631, 39064, 20013, 25991, 32763, 35793, 42, 42, 65306]"

definition label_summary_zh :: ustr where
  "label_summary_zh = [42, 42, 25688, 35201, 20013, 25991, 32763, 35793, 42, 42, 65306]"

definition label_model_function :: ustr where
  "label_model_function = [42, 42, 27169, 22411, 21151, 33021, 42, 42, 65306]"

text \<open>The dictionary \<^verbatim>\<open>parsed_fields\<close>, which always has exactly these three keys.\<close>

record parsed_fields =
  pf_title_zh :: ustr
  pf_summary_zh :: ustr
  pf_model_function :: ustr

text \<open>The body of the loop over the lines of the reply.\<close>

definition parse_line :: "parsed_fields \<Rightarrow> ustr \<Rightarrow> parsed_fields" where
  "parse_line pf raw_line =
     (let line = py_strip raw_line in
      if py_startswith line label_title_zh
        then pf\<lparr>pf_title_zh := py_strip (py_remove label_title_zh line)\<rparr>
      else if py_startswith line label_summary_zh
        then pf\<lparr>pf_summary_zh := py_strip (py_remove label_summary_zh line)\<rparr>
      else if py_startswith line label_model_function
        then pf\<lparr>pf_model_function := py_strip (py_remove label_model_function line)\<rparr>
      else pf)"

definition parse_ai_response :: "ustr \<Rightarrow> parsed_fields" where
  "parse_ai_response response =
     (let pf = foldl parse_line
                 \<lparr>pf_title_zh = [], pf_summary_zh = [], pf_model_function = zanwu\<rparr>
                 (py_split 10 (py_strip response))
      in if pf_model_function pf = [] \<or> py_strip (pf_model_function pf) = []
         then pf\<lparr>pf_model_function := zanwu\<rparr> else pf)"

section \<open>One paper: \<^verbatim>\<open>PaperAnalyzer.analyze_single\<close>\<close>

text \<open>
  The fallback for the Chinese summary, written twice in the source (lines 208-210 and
  332-334): the summary cut to 200 characters plus three dots when it is longer, and the
  no-summary sentinel when that is empty or the two-character sentinel.
\<close>

definition ellipsis :: ustr where
  "ellipsis = [46, 46, 46]"

definition fallback_summary_zh :: "ustr \<Rightarrow> ustr" where
  "fallback_summary_zh s =
     (let summary_zh = (if length s > 200 then take 200 s @ ellipsis else s)
      in if summary_zh = [] \<or> summary_zh = zanwu then no_summary else summary_zh)"

text \<open>
  One call of the assistant, \<^verbatim>\<open>self.ai_client.chat(messages)\<close> run under the 90 second
  limit of \<^verbatim>\<open>future.result(timeout=90)\<close>: it returns a text (possibly empty), raises, or
  runs out of time. The messages are a function of the paper alone
  (\<^verbatim>\<open>_build_analysis_prompt\<close>), and the assistant need not answer the same question the same
  way twice, so a client is a function of the number of calls made so far and of the paper.
  Every function that may call the assistant takes the number of calls made and returns
  the new one.
\<close>

datatype chat_outcome = Response ustr | Raised | TimedOut

type_synonym client = "nat \<Rightarrow> paper \<Rightarrow> chat_outcome"

record analyzer =
  use_ai :: bool
  ai_client :: "client option"

text \<open>
  The retry loop \<^verbatim>\<open>for attempt in range(max_retries)\<close> with \<open>max_retries = 3\<close>, by the
  number of attempts left: \<open>attempt < max_retries - 1\<close> is \<open>0 < left\<close> after this one.
  An exception and a timeout are both caught by \<^verbatim>\<open>except Exception\<close>.
  The result is the non-empty reply, or None where the source returns None.
\<close>

fun retry_loop :: "client \<Rightarrow> paper \<Rightarrow> nat \<Rightarrow> nat \<Rightarrow> ustr option \<times> nat" where
  "retry_loop chat p 0 n = (None, n)"
| "retry_loop chat p (Suc left) n =
     (case chat n p of
        Response response \<Rightarrow>
          if response \<noteq> [] then (Some response, Suc n)
          else if 0 < left then retry_loop chat p left (Suc n)
          else (None, Suc n)
      | _ \<Rightarrow>
          if 0 < left then retry_loop chat p left (Suc n)
          else (None, Suc n))"

text \<open>
  The two results \<^verbatim>\<open>analyze_single\<close> can build: the basic one of lines 212-224, from the
  paper alone, and the one of lines 316-352, from the paper and the assistant's reply.
\<close>

definition basic_result :: "(nat \<Rightarrow> bool) \<Rightarrow> paper \<Rightarrow> analysis_result" where
  "basic_result dg p =
     \<lparr>r_id = p_id p, title_en = title p, title_zh = translation p, r_url = url p,
      r_authors = authors p, r_publish_date = format_publish_date dg (publish_date p),
      summary_en = summary p, summary_zh = fallback_summary_zh (summary p),
      r_github_repo = github_repo p, r_project_page = project_page p,
      model_function = zanwu\<rparr>"

definition result_of_response :: "(nat \<Rightarrow> bool) \<Rightarrow> paper \<Rightarrow> ustr \<Rightarrow> analysis_result" where
  "result_of_response dg p response =
     (let parsed = parse_ai_response response;
          t = py_strip (pf_title_zh parsed);
          s = py_strip (pf_summary_zh parsed)
      in \<lparr>r_id = p_id p, title_en = title p,
          title_zh = (if t = [] then title p else t),
          r_url = url p, r_authors = authors p,
          r_publish_date = format_publish_date dg (publish_date p),
          summary_en = summary p,
          summary_zh = (if s = [] then fallback_summary_zh (summary p) else s),
          r_github_repo = github_repo p, r_project_page = project_page p,
          model_function = pf_model_function parsed\<rparr>)"

definition analyze_single ::
  "(nat \<Rightarrow> bool) \<Rightarrow> analyzer \<Rightarrow> paper \<Rightarrow> nat \<Rightarrow> analysis_result option \<times> nat" where
  "analyze_single dg self p n =
     (if \<not> use_ai self \<or> ai_client self = None then (Some (basic_result dg p), n)
      else
        (case ai_client self of
           Some chat \<Rightarrow>
             (case retry_loop chat p 3 n of
                (None, n') \<Rightarrow> (None, n')
              | (Some response, n') \<Rightarrow> (Some (result_of_response dg p response), n'))
         | None \<Rightarrow> (Some (basic_result dg p), n)))"

section \<open>The Result Store of one date\<close>

text \<open>
  The report file of a date holds a JSON array of dictionaries. An entry is a dictionary
  from field names to strings. The file may be absent or hold something other than an
  array; \<^verbatim>\<open>_load_existing_results\<close> reads both as the empty list. Reading and writing the
  file are taken to succeed.
\<close>

type_synonym entry = "(ustr \<times> ustr) list"

datatype report_file = NoFile | NotAList | Records "entry list"

definition load_existing_results :: "report_file \<Rightarrow> entry list" where
  "load_existing_results f = (case f of Records rs \<Rightarrow> rs | _ \<Rightarrow> [])"

definition extract_paper_id_from_result :: "entry \<Rightarrow> ustr" where
  "extract_paper_id_from_result r =
     (case map_of r (of_ascii ''paper_id'') of
        Some v \<Rightarrow> v
      | None \<Rightarrow>
          (case map_of r (of_ascii ''id'') of
             Some v \<Rightarrow> v
           | None \<Rightarrow>
               (let u = (case map_of r (of_ascii ''paper_url'') of Some v \<Rightarrow> v | None \<Rightarrow> [])
                in if u \<noteq> [] then last (py_split 47 u) else [])))"

definition to_dict :: "analysis_result \<Rightarrow> entry" where
  \<comment> \<open>Modelled from the spec: \<^verbatim>\<open>AnalysisResult.to_dict\<close> of \<^verbatim>\<open>models.report\<close>, the fields
      of the data model under their names.\<close>
  "to_dict r =
     [(of_ascii ''id'', r_id r), (of_ascii ''title_en'', title_en r),
      (of_ascii ''title_zh'', title_zh r), (of_ascii ''url'', r_url r),
      (of_ascii ''authors'', r_authors r), (of_ascii ''publish_date'', r_publish_date r),
      (of_ascii ''summary_en'', summary_en r), (of_ascii ''summary_zh'', summary_zh r),
      (of_ascii ''github_repo'', r_github_repo r),
      (of_ascii ''project_page'', r_project_page r),
      (of_ascii ''model_function'', model_function r)]"

definition paper_id :: "analysis_result \<Rightarrow> ustr" where
  \<comment> \<open>Modelled from the spec: the attribute \<^verbatim>\<open>paper_id\<close> of \<^verbatim>\<open>AnalysisResult\<close>, the id that
      the single-item save compares entries with.\<close>
  "paper_id r = r_id r"

definition save_single_result :: "analysis_result \<Rightarrow> report_file \<Rightarrow> report_file" where
  "save_single_result result f =
     Records (filter (\<lambda>r. extract_paper_id_from_result r \<noteq> paper_id result)
                (load_existing_results f) @ [to_dict result])"

section \<open>The batch: \<^verbatim>\<open>PaperAnalyzer.analyze_batch\<close>\<close>

text \<open>The local variables of the loop, the report file and the number of assistant calls.\<close>

record batch_state =
  store :: report_file
  calls :: nat
  results :: "analysis_result list"
  processed_count :: nat
  success_count :: nat
  fail_count :: nat
  skip_count :: nat

text \<open>
  One iteration. \<open>dated\<close> says that a date was given, which is when \<open>final_file\<close> is set;
  \<open>existing_ids\<close> is the set computed before the loop. A result object is true in
  \<^verbatim>\<open>if result:\<close>, and None is not. As modelled, \<open>analyze_single\<close> returns on every typed
  paper, so the \<^verbatim>\<open>except\<close> branch of the loop, which counts a failure as the None branch
  does, is not taken.
\<close>

definition batch_step ::
  "(nat \<Rightarrow> bool) \<Rightarrow> analyzer \<Rightarrow> bool \<Rightarrow> ustr set \<Rightarrow> batch_state \<Rightarrow> paper \<Rightarrow> batch_state" where
  "batch_step dg self dated existing_ids st p =
     (if dated \<and> p_id p \<in> existing_ids then st\<lparr>skip_count := skip_count st + 1\<rparr>
      else
        (case analyze_single dg self p (calls st) of
           (Some result, n) \<Rightarrow>
             st\<lparr>processed_count := processed_count st + 1, calls := n,
                store := (if dated then save_single_result result (store st) else store st),
                results := results st @ [result],
                success_count := success_count st + 1\<rparr>
         | (None, n) \<Rightarrow>
             st\<lparr>processed_count := processed_count st + 1, calls := n,
                fail_count := fail_count st + 1\<rparr>))"

definition batch_loop ::
  "(nat \<Rightarrow> bool) \<Rightarrow> analyzer \<Rightarrow> bool \<Rightarrow> ustr set \<Rightarrow> batch_state \<Rightarrow> paper list \<Rightarrow> batch_state" where
  "batch_loop dg self dated existing_ids st papers =
     foldl (batch_step dg self dated existing_ids) st papers"

definition initial_state :: "report_file \<Rightarrow> nat \<Rightarrow> batch_state" where
  "initial_state f n =
     \<lparr>store = f, calls = n, results = [], processed_count = 0, success_count = 0,
      fail_count = 0, skip_count = 0\<rparr>"

text \<open>
  The whole call. After the loop, the variable \<^verbatim>\<open>actually_processed\<close> is assigned only under
  \<^verbatim>\<open>if not silent:\<close>, and the log line of line 188 reads it in either mode: in silent mode
  the read raises UnboundLocalError, after the loop has run and the file has been
  written. An outcome is what the call returns or raises, and the state it leaves.
\<close>

datatype py_error = UnboundLocalError

record batch_outcome =
  returned :: "py_error + analysis_result list"
  final :: batch_state

definition date_given :: "ustr option \<Rightarrow> bool" where
  "date_given date = (case date of None \<Rightarrow> False | Some d \<Rightarrow> d \<noteq> [])"

definition analyze_batch ::
  "(nat \<Rightarrow> bool) \<Rightarrow> analyzer \<Rightarrow> paper list \<Rightarrow> ustr option \<Rightarrow> bool \<Rightarrow> report_file \<Rightarrow> nat
     \<Rightarrow> batch_outcome" where
  "analyze_batch dg self papers date silent f n =
     (if papers = [] then \<lparr>returned = Inr [], final = initial_state f n\<rparr>
      else
        (let dated = date_given date;
             existing_ids =
               (if dated then set (map extract_paper_id_from_result (load_existing_results f))
                else {});
             st = batch_loop dg self dated existing_ids (initial_state f n) papers
         in \<lparr>returned = (if silent then Inl UnboundLocalError else Inr (results st)),
             final = st\<rparr>))"

section \<open>Raw records\<close>

text \<open>
  A raw record is whatever \<^verbatim>\<open>json.load\<close> gives: the cleaner probes it field by field. An
  object is the list of its members; a Python dictionary has one value for each key, and
  \<open>map_of\<close> reads the first one. Numbers are integers here: in every test the cleaner makes,
  a float behaves like an integer (it is no string, list or dictionary, and it is false
  exactly when it is zero).
\<close>

datatype json =
    JNull
  | JBool bool
  | JNum int
  | JStr ustr
  | JArr "json list"
  | JObj "(ustr \<times> json) list"

text \<open>Python's truth value of a JSON value, as in \<^verbatim>\<open>if not paper_id\<close> or \<^verbatim>\<open>a or b\<close>.\<close>

fun py_truthy :: "json \<Rightarrow> bool" where
  "py_truthy JNull \<longleftrightarrow> False"
| "py_truthy (JBool b) \<longleftrightarrow> b"
| "py_truthy (JNum n) \<longleftrightarrow> n \<noteq> 0"
| "py_truthy (JStr s) \<longleftrightarrow> s \<noteq> []"
| "py_truthy (JArr xs) \<longleftrightarrow> xs \<noteq> []"
| "py_truthy (JObj kvs) \<longleftrightarrow> kvs \<noteq> []"

definition py_or :: "json \<Rightarrow> json \<Rightarrow> json" where
  "py_or a b = (if py_truthy a then a else b)"

text \<open>\<^verbatim>\<open>d.get(key, default)\<close>; with no default given, the default is None.\<close>

definition dict_get :: "(ustr \<times> json) list \<Rightarrow> ustr \<Rightarrow> json \<Rightarrow> json" where
  "dict_get d k dflt = (case map_of d k of Some v \<Rightarrow> v | None \<Rightarrow> dflt)"

text \<open>
  \<^verbatim>\<open>', '.join(authors_list)\<close> raises TypeError when an item is not a string: None then.
\<close>

fun py_join :: "ustr \<Rightarrow> json list \<Rightarrow> ustr option" where
  "py_join sep [] = Some []"
| "py_join sep [JStr s] = Some s"
| "py_join sep (JStr s # x # xs) =
     (case py_join sep (x # xs) of Some rest \<Rightarrow> Some (s @ sep @ rest) | None \<Rightarrow> None)"
| "py_join sep _ = None"

text \<open>
  The f-string \<^verbatim>\<open>f"https://arxiv.org/abs/{paper_id}"\<close> formats the id: a string stands for
  itself, and what Python prints for another value is the parameter \<open>fmt\<close>.
\<close>

definition format_value :: "(json \<Rightarrow> ustr) \<Rightarrow> json \<Rightarrow> ustr" where
  "format_value fmt v = (case v of JStr s \<Rightarrow> s | _ \<Rightarrow> fmt v)"

section \<open>Rule-based extraction: \<^verbatim>\<open>DataCleaner._extract_paper_info\<close>\<close>

text \<open>The sentinel for an empty author list (four characters, "unknown author").\<close>

definition unknown_author :: ustr where
  "unknown_author = [26410, 30693, 20316, 32773]"

text \<open>The loop over \<^verbatim>\<open>authors_raw\<close> when it is a list.\<close>

fun author_names :: "json list \<Rightarrow> json list" where
  "author_names [] = []"
| "author_names (JObj a # rest) =
     (let name = dict_get a (of_ascii ''name'') (JStr [])
      in if py_truthy name then name # author_names rest else author_names rest)"
| "author_names (JStr s # rest) = JStr s # author_names rest"
| "author_names (_ # rest) = author_names rest"

definition authors_list_of :: "json \<Rightarrow> json list" where
  "authors_list_of authors_raw =
     (case authors_raw of
        JArr xs \<Rightarrow> author_names xs
      | JStr s \<Rightarrow> [JStr s]
      | _ \<Rightarrow> [])"

text \<open>
  The cleaned item is the dictionary literal of the source, in its order. Every exception
  raised inside (\<^verbatim>\<open>.get\<close> on something that is no dictionary, \<^verbatim>\<open>.strip\<close> on something that
  is no string, \<^verbatim>\<open>join\<close> on a name that is no string) is caught and gives None.
\<close>

definition extract_paper_info :: "(json \<Rightarrow> ustr) \<Rightarrow> json \<Rightarrow> (ustr \<times> json) list option" where
  "extract_paper_info fmt item =
     (case item of
        JObj item_d \<Rightarrow>
          (case dict_get item_d (of_ascii ''paper'') item of
             JObj paper_data \<Rightarrow>
               (let paper_id = dict_get paper_data (of_ascii ''id'') (JStr []) in
                case dict_get paper_data (of_ascii ''title'') (JStr []) of
                  JStr raw_title \<Rightarrow>
                    (let title = py_replace_char 10 32 (py_strip raw_title) in
                     if \<not> py_truthy paper_id \<or> title = [] then None
                     else
                       (let authors_list =
                              authors_list_of (dict_get paper_data (of_ascii ''authors'') (JArr []))
                        in case (if authors_list \<noteq> [] then py_join (of_ascii '', '') authors_list
                                 else Some unknown_author) of
                             None \<Rightarrow> None
                           | Some authors_str \<Rightarrow>
                               (let publish_date =
                                      py_or (dict_get paper_data (of_ascii ''publishedAt'') JNull)
                                        (py_or (dict_get paper_data (of_ascii ''publishedDate'') JNull)
                                           (py_or (dict_get paper_data (of_ascii ''published'') JNull)
                                              (JStr [])))
                                in Some
                                  [(of_ascii ''id'', paper_id),
                                   (of_ascii ''title'', JStr title),
                                   (of_ascii ''translation'', JStr title),
                                   (of_ascii ''url'',
                                      dict_get paper_data (of_ascii ''url'')
                                        (JStr (of_ascii ''https://arxiv.org/abs/'' @
                                               format_value fmt paper_id))),
                                   (of_ascii ''authors'', JStr authors_str),
                                   (of_ascii ''publish_date'', publish_date),
                                   (of_ascii ''summary'',
                                      dict_get paper_data (of_ascii ''summary'') (JStr [])),
                                   (of_ascii ''github_repo'',
                                      dict_get paper_data (of_ascii ''githubRepo'') (JStr [])),
                                   (of_ascii ''project_page'',
                                      dict_get paper_data (of_ascii ''projectPage'') (JStr [])),
                                   (of_ascii ''model_function'', JStr [])])))
                | _ \<Rightarrow> None)
           | _ \<Rightarrow> None)
      | _ \<Rightarrow> None)"

section \<open>The two cleaning strategies\<close>

text \<open>
  \<^verbatim>\<open>_clean_with_rules\<close>: the items for which the extraction gives a dictionary, in order (a
  cleaned item has ten keys, so \<^verbatim>\<open>if cleaned_item\<close> holds of each one).
\<close>

definition clean_with_rules :: "(json \<Rightarrow> ustr) \<Rightarrow> json list \<Rightarrow> (ustr \<times> json) list list" where
  "clean_with_rules fmt raw_data = List.map_filter (extract_paper_info fmt) raw_data"

text \<open>\<^verbatim>\<open>DataCleaner._parse_ai_response\<close>: the unfinished parser, which returns the empty list.\<close>

definition cleaner_parse_ai_response :: "ustr \<Rightarrow> (ustr \<times> json) list list" where
  "cleaner_parse_ai_response response = []"

text \<open>
  \<^verbatim>\<open>_clean_with_ai\<close> makes one call of the assistant, with a prompt built from the raw data:
  the client is a function of the raw data. Building the prompt does not raise on JSON
  data (\<^verbatim>\<open>_preprocess_raw_data\<close> skips the items it cannot read).
\<close>

type_synonym cleaning_client = "json list \<Rightarrow> chat_outcome"

definition clean_with_ai ::
  "(json \<Rightarrow> ustr) \<Rightarrow> cleaning_client \<Rightarrow> json list \<Rightarrow> (ustr \<times> json) list list" where
  "clean_with_ai fmt chat raw_data =
     (case chat raw_data of
        Response response \<Rightarrow>
          if response \<noteq> [] then cleaner_parse_ai_response response
          else clean_with_rules fmt raw_data
      | _ \<Rightarrow> clean_with_rules fmt raw_data)"

record cleaner =
  c_use_ai :: bool
  c_ai_client :: "cleaning_client option"

text \<open>\<^verbatim>\<open>DataCleaner._clean_data\<close>: the strategy chosen by the configuration.\<close>

definition clean_data :: "(json \<Rightarrow> ustr) \<Rightarrow> cleaner \<Rightarrow> json list \<Rightarrow> (ustr \<times> json) list list" where
  "clean_data fmt self raw_data =
     (if raw_data = [] then []
      else if c_use_ai self \<and> c_ai_client self \<noteq> None
        then (case c_ai_client self of
                Some chat \<Rightarrow> clean_with_ai fmt chat raw_data
              | None \<Rightarrow> clean_with_rules fmt raw_data)
      else clean_with_rules fmt raw_data)"

section \<open>The entries after a sequence of saves\<close>

text \<open>
  What the report file holds after the single-item saves of the results \<open>rs\<close>, in order,
  starting from the entries \<open>es\<close>. It is used to state what the loop leaves in the file.
\<close>

definition stored_after :: "entry list \<Rightarrow> analysis_result list \<Rightarrow> entry list" where
  "stored_after es rs =
     foldl (\<lambda>es result. load_existing_results (save_single_result result (Records es))) es rs"

section \<open>Concrete inputs\<close>

text \<open>A paper as the cleaner writes it, and an analyzer configured without the assistant.\<close>

definition demo_paper :: paper where
  "demo_paper =
     \<lparr>p_id = of_ascii ''2507.00001'', title = of_ascii ''A Title'',
      translation = of_ascii ''A Title'', url = of_ascii ''https://arxiv.org/abs/2507.00001'',
      authors = of_ascii ''Jane Doe'', publish_date = of_ascii ''2025-07-31T17:00:30.000Z'',
      summary = of_ascii ''A short summary.'', github_repo = [], project_page = []\<rparr>"

definition rules_only :: analyzer where
  "rules_only = \<lparr>use_ai = False, ai_client = None\<rparr>"

text \<open>
  Three assistants: one that raises at every call, one that answers without any label, and
  one that answers with a labelled title and summary (two Chinese characters each).
\<close>

definition failing_client :: client where
  "failing_client = (\<lambda>n p. Raised)"

definition unlabelled_client :: client where
  "unlabelled_client = (\<lambda>n p. Response (of_ascii ''Sorry, I cannot help.''))"

definition labelled_reply :: ustr where
  "labelled_reply =
     label_title_zh @ [26631, 39064] @ [10] @ label_summary_zh @ [25688, 35201] @ [10]"

definition labelled_client :: client where
  "labelled_client = (\<lambda>n p. Response labelled_reply)"

text \<open>A paper whose summary has 500 characters.\<close>

definition long_paper :: paper where
  "long_paper = demo_paper\<lparr>summary := replicate 500 97\<rparr>"

definition assisted :: "client \<Rightarrow> analyzer" where
  "assisted c = \<lparr>use_ai = True, ai_client = Some c\<rparr>"

text \<open>A date key, and a second paper with the id of the first and another title.\<close>

definition demo_date :: "ustr option" where
  "demo_date = Some (of_ascii ''2025-07-31'')"

definition revised_paper :: paper where
  "revised_paper = demo_paper\<lparr>title := of_ascii ''A Revised Title''\<rparr>"

text \<open>
  A report file with one entry of another paper, and two runs of the batch on it with the
  same two papers.
\<close>

definition other_entry :: entry where
  "other_entry = [(of_ascii ''id'', of_ascii ''2507.99999''), (of_ascii ''title_en'', of_ascii ''Other'')]"

definition first_run :: batch_outcome where
  "first_run =
     analyze_batch ascii_digit rules_only [demo_paper, revised_paper] demo_date False
       (Records [other_entry]) 0"

definition second_run :: batch_outcome where
  "second_run =
     analyze_batch ascii_digit rules_only [demo_paper, revised_paper] demo_date False
       (store (final first_run)) (calls (final first_run))"

text \<open>
  The raw record \<^verbatim>\<open>{"paper": {"id": "1234.5678", "title": "A Title\n", "authors":
  [{"name": "Jane Doe"}]}}\<close>, a record whose title is blank, and a cleaner whose assistant
  answers every request with a text.
\<close>

definition demo_record :: json where
  "demo_record =
     JObj [(of_ascii ''paper'',
            JObj [(of_ascii ''id'', JStr (of_ascii ''1234.5678'')),
                  (of_ascii ''title'', JStr (of_ascii ''A Title'' @ [10])),
                  (of_ascii ''authors'',
                     JArr [JObj [(of_ascii ''name'', JStr (of_ascii ''Jane Doe''))]])])]"

definition untitled_record :: json where
  "untitled_record =
     JObj [(of_ascii ''paper'',
            JObj [(of_ascii ''id'', JStr (of_ascii ''1234.9999'')),
                  (of_ascii ''title'', JStr [32, 10])])]"

definition answering_cleaner :: cleaner where
  "answering_cleaner =
     \<lparr>c_use_ai = True,
      c_ai_client = Some (\<lambda>raw_data. Response (of_ascii ''1. Title: A Title''))\<rparr>"

text \<open>
  A stand-in for Python's formatting of a value that is no string, for the evaluations in
  which every id is a string.
\<close>

definition any_format :: "json \<Rightarrow> ustr" where
  "any_format v = []"

text \<open>A raw record without envelope and without authors: \<^verbatim>\<open>{"id": "1234.0001", "title": "B"}\<close>.\<close>

definition anonymous_record :: json where
  "anonymous_record =
     JObj [(of_ascii ''id'', JStr (of_ascii ''1234.0001'')), (of_ascii ''title'', JStr (of_ascii ''B''))]"

text \<open>
  More runs, each followed by a second run with the same papers and date: with an
  assistant that always raises; on a file that already holds the result of the paper; with
  an assistant that answers its first call only, on two papers of one id; and with an
  assistant that raises three times and answers from then on.
\<close>

definition once_client :: client where
  "once_client = (\<lambda>n p. if n = 0 then Response labelled_reply else Raised)"

definition late_client :: client where
  "late_client = (\<lambda>n p. if n < 3 then Raised else Response labelled_reply)"

definition failing_first_run :: batch_outcome where
  "failing_first_run =
     analyze_batch ascii_digit (assisted failing_client) [demo_paper] demo_date False NoFile 0"

definition failing_second_run :: batch_outcome where
  "failing_second_run =
     analyze_batch ascii_digit (assisted failing_client) [demo_paper] demo_date False
       (store (final failing_first_run)) (calls (final failing_first_run))"

definition stored_first_run :: batch_outcome where
  "stored_first_run =
     analyze_batch ascii_digit rules_only [demo_paper] demo_date False
       (Records [to_dict (basic_result ascii_digit demo_paper)]) 0"

definition stored_second_run :: batch_outcome where
  "stored_second_run =
     analyze_batch ascii_digit rules_only [demo_paper] demo_date False
       (store (final stored_first_run)) (calls (final stored_first_run))"

definition partial_first_run :: batch_outcome where
  "partial_first_run =
     analyze_batch ascii_digit (assisted once_client) [demo_paper, revised_paper] demo_date False
       NoFile 0"

definition partial_second_run :: batch_outcome where
  "partial_second_run =
     analyze_batch ascii_digit (assisted once_client) [demo_paper, revised_paper] demo_date False
       (store (final partial_first_run)) (calls (final partial_first_run))"

definition late_first_run :: batch_outcome where
  "late_first_run =
     analyze_batch ascii_digit (assisted late_client) [demo_paper] demo_date False NoFile 0"

definition late_second_run :: batch_outcome where
  "late_second_run =
     analyze_batch ascii_digit (assisted late_client) [demo_paper] demo_date False
       (store (final late_first_run)) (calls (final late_first_run))"

section \<open>Facts about the string operations\<close>

lemma py_split_not_Nil: "py_split c s \<noteq> []"
  by (induction s) (auto split: list.splits)

lemma hd_py_split: "hd (py_split c s) = takeWhile (\<lambda>x. x \<noteq> c) s"
  by (induction s) (auto split: list.splits simp: py_split_not_Nil)

lemma date_shape_length: "date_shape dg s \<Longrightarrow> length s = 10"
  by (erule date_shape.elims(2)) simp

lemma re_search_date_Some:
  "re_search_date dg s = Some m \<Longrightarrow>
     date_shape dg m \<and> length m = 10 \<and> (\<exists>pre post. s = pre @ m @ post)"
proof (induction s)
  case Nil
  then show ?case by simp
next
  case (Cons c cs)
  show ?case
  proof (cases "date_shape dg (take 10 (c # cs))")
    case True
    with Cons.prems have m: "m = take 10 (c # cs)" by simp
    have len: "length m = 10"
      using True unfolding m by (rule date_shape_length)
    have "c # cs = [] @ m @ drop 10 (c # cs)" unfolding m by simp
    then show ?thesis using True len m by blast
  next
    case False
    with Cons.prems have "re_search_date dg cs = Some m" by simp
    from Cons.IH [OF this] obtain pre post where
      "date_shape dg m" "length m = 10" "cs = pre @ m @ post" by blast
    then have "c # cs = (c # pre) @ m @ post" by simp
    with \<open>date_shape dg m\<close> \<open>length m = 10\<close> show ?thesis by blast
  qed
qed

lemma re_search_date_shape_self:
  assumes "date_shape dg s"
  shows "re_search_date dg s = Some s"
proof -
  have len: "length s = 10" using assms by (rule date_shape_length)
  then obtain c cs where s: "s = c # cs" by (cases s) auto
  have "take 10 (c # cs) = c # cs" using len s by simp
  then show ?thesis using assms s by simp
qed


section \<open>Date normalisation\<close>


lemma takeWhile_py_split: "(case py_split c s of w # _ \<Rightarrow> w | [] \<Rightarrow> s) = takeWhile (\<lambda>x. x \<noteq> c) s"
  using hd_py_split [of c s] py_split_not_Nil [of c s] by (cases "py_split c s") auto

lemma analyze_single_publish_date:
  "analyze_single dg self p n = (Some r, n') \<Longrightarrow>
     r_publish_date r = format_publish_date dg (publish_date p)"
  by (auto simp: analyze_single_def basic_result_def result_of_response_def Let_def
           split: option.splits if_splits prod.splits)

lemma format_publish_date_sentinel:
  "s = [] \<or> s = zanwu \<Longrightarrow> format_publish_date dg s = zanwu"
  by (auto simp: format_publish_date_def)

lemma format_publish_date_T:
  "s \<noteq> [] \<Longrightarrow> s \<noteq> zanwu \<Longrightarrow> 84 \<in> set s \<Longrightarrow>
     format_publish_date dg s = takeWhile (\<lambda>c. c \<noteq> 84) s"
  by (simp add: format_publish_date_def takeWhile_py_split)

lemma format_publish_date_search:
  assumes "84 \<notin> set s" "re_search_date dg s = Some m"
  shows "format_publish_date dg s = m"
proof -
  from re_search_date_Some [OF assms(2)] obtain pre post where
    m: "date_shape dg m" "length m = 10" and s: "s = pre @ m @ post" by blast
  have "10 \<le> length s" using m(2) s by simp
  then have ne: "s \<noteq> []" "s \<noteq> zanwu" by (auto simp: zanwu_def)
  show ?thesis
  proof (cases "length s = 10")
    case True
    with m(2) s have "s = m" by simp
    with ne assms show ?thesis by (simp add: format_publish_date_def)
  next
    case False
    with ne assms show ?thesis by (simp add: format_publish_date_def)
  qed
qed

lemma format_publish_date_none:
  "s \<noteq> [] \<Longrightarrow> s \<noteq> zanwu \<Longrightarrow> 84 \<notin> set s \<Longrightarrow> re_search_date dg s = None \<Longrightarrow>
     format_publish_date dg s = s"
  by (simp add: format_publish_date_def)


text \<open>
  The search finds a pattern whenever the string contains one, and what it finds is the
  leftmost one: no pattern starts before it.
\<close>

lemma re_search_date_at_head:
  assumes "date_shape dg m"
  shows "re_search_date dg (m @ post) = Some m"
proof -
  have len: "length m = 10" using assms by (rule date_shape_length)
  then obtain c cs where m: "m = c # cs" by (cases m) auto
  have "take 10 ((c # cs) @ post) = c # cs" using len m by simp
  then show ?thesis using assms m by simp
qed

lemma re_search_date_complete:
  "date_shape dg m \<Longrightarrow> re_search_date dg (pre @ m @ post) \<noteq> None"
proof (induction pre)
  case Nil
  then show ?case by (simp add: re_search_date_at_head)
next
  case (Cons a pre)
  then show ?case by simp
qed

lemma re_search_date_leftmost:
  assumes "date_shape dg m"
    and "\<forall>pre' m' post'. pre @ m @ post = pre' @ m' @ post' \<and> date_shape dg m' \<longrightarrow>
           length pre \<le> length pre'"
  shows "re_search_date dg (pre @ m @ post) = Some m"
  using assms(2)
proof (induction pre)
  case Nil
  show ?case using assms(1) by (simp add: re_search_date_at_head)
next
  case (Cons a pre)
  let ?s = "(a # pre) @ m @ post"
  have no: "\<not> date_shape dg (take 10 ?s)"
  proof
    assume d: "date_shape dg (take 10 ?s)"
    have "?s = [] @ take 10 ?s @ drop 10 ?s"
      unfolding append_Nil by (rule append_take_drop_id [symmetric])
    with d Cons.prems have "length (a # pre) \<le> length ([] :: ustr)" by blast
    then show False by simp
  qed
  have "\<forall>pre' m' post'. pre @ m @ post = pre' @ m' @ post' \<and> date_shape dg m' \<longrightarrow>
          length pre \<le> length pre'"
  proof (intro allI impI)
    fix pre' m' post'
    assume h: "pre @ m @ post = pre' @ m' @ post' \<and> date_shape dg m'"
    then have "(a # pre) @ m @ post = (a # pre') @ m' @ post'" by simp
    with h Cons.prems have "length (a # pre) \<le> length (a # pre')" by blast
    then show "length pre \<le> length pre'" by simp
  qed
  from Cons.IH [OF this] have "re_search_date dg (pre @ m @ post) = Some m" .
  with no show ?case by simp
qed

lemma re_search_date_None_iff:
  "re_search_date dg s = None \<longleftrightarrow> \<not> (\<exists>pre m post. s = pre @ m @ post \<and> date_shape dg m)"
proof
  assume n: "re_search_date dg s = None"
  show "\<not> (\<exists>pre m post. s = pre @ m @ post \<and> date_shape dg m)"
  proof
    assume "\<exists>pre m post. s = pre @ m @ post \<and> date_shape dg m"
    then obtain pre m post where "s = pre @ m @ post" "date_shape dg m" by blast
    with re_search_date_complete [of dg m pre post] n show False by simp
  qed
next
  assume c: "\<not> (\<exists>pre m post. s = pre @ m @ post \<and> date_shape dg m)"
  show "re_search_date dg s = None"
  proof (cases "re_search_date dg s")
    case None
    then show ?thesis .
  next
    case (Some m)
    from re_search_date_Some [OF Some] c show ?thesis by blast
  qed
qed

lemma date_shape_no_T: "\<not> dg 84 \<Longrightarrow> date_shape dg d \<Longrightarrow> 84 \<notin> set d"
  by (erule date_shape.elims(2)) auto

lemma format_publish_date_iso:
  assumes "\<not> dg 84" "date_shape dg d"
  shows "format_publish_date dg (d @ 84 # rest) = d"
proof -
  have len: "length d = 10" using assms(2) by (rule date_shape_length)
  have t: "84 \<notin> set d" using assms by (rule date_shape_no_T)
  have "length (d @ 84 # rest) \<noteq> length zanwu"
    using len by (simp add: zanwu_def)
  then have "d @ 84 # rest \<noteq> zanwu" by (metis)
  then have ne: "d @ 84 # rest \<noteq> []" "d @ 84 # rest \<noteq> zanwu"
    by simp_all
  have "takeWhile (\<lambda>c. c \<noteq> 84) (d @ 84 # rest) = d"
    using t by (induction d) auto
  then show ?thesis using ne by (simp add: format_publish_date_T)
qed


lemma format_publish_date_leftmost:
  assumes "84 \<notin> set s" "s = pre @ m @ post" "date_shape dg m"
    and "\<forall>pre' m' post'. s = pre' @ m' @ post' \<and> date_shape dg m' \<longrightarrow> length pre \<le> length pre'"
  shows "format_publish_date dg s = m"
proof -
  have "re_search_date dg (pre @ m @ post) = Some m"
    using assms(3) assms(4) unfolding assms(2) by (rule re_search_date_leftmost)
  then have "re_search_date dg s = Some m" by (simp add: assms(2))
  with assms(1) show ?thesis by (rule format_publish_date_search)
qed

lemma format_publish_date_contains:
  assumes "84 \<notin> set s" "s = pre @ m @ post" "date_shape dg m"
  shows "date_shape dg (format_publish_date dg s)"
proof -
  from re_search_date_complete [OF assms(3), of pre post] obtain m' where
    m': "re_search_date dg s = Some m'" by (auto simp: assms(2))
  from format_publish_date_search [OF assms(1) m'] re_search_date_Some [OF m']
  show ?thesis by simp
qed

lemma format_publish_date_passthrough:
  assumes "\<not> dg 84" "date_shape dg s"
  shows "format_publish_date dg s = s"
  using date_shape_no_T [OF assms] re_search_date_shape_self [OF assms(2)]
  by (rule format_publish_date_search)

lemma format_publish_date_no_pattern:
  assumes "s \<noteq> []" "s \<noteq> zanwu" "84 \<notin> set s"
    and "\<not> (\<exists>pre m post. s = pre @ m @ post \<and> date_shape dg m)"
  shows "format_publish_date dg s = s"
  using assms by (simp add: format_publish_date_none re_search_date_None_iff)

text \<open>
  C5, as stated, fails: a date written in words has no \<open>T\<close> and no numeric pattern, and comes
  back unchanged, which is neither the sentinel nor a string of the shape YYYY-MM-DD.
\<close>

theorem C5_counterexample:
  "format_publish_date ascii_digit (of_ascii ''31 July 2025'') = of_ascii ''31 July 2025'' \<and>
   of_ascii ''31 July 2025'' \<noteq> zanwu \<and>
   \<not> date_shape ascii_digit (of_ascii ''31 July 2025'')"
  by (simp add: format_publish_date_def of_ascii_def zanwu_def py_count_def ascii_digit_def)

text \<open>
  C5, amended: the publish date of every result is the normalised date of the paper. The
  normalised date is the sentinel for an empty or sentinel input; it is the date part, of
  the shape YYYY-MM-DD, of an ISO timestamp (a date of that shape, a \<open>T\<close> and anything); for
  an input without \<open>T\<close> that contains a pattern of the shape YYYY-MM-DD it is of that shape,
  namely the leftmost such pattern; an input without \<open>T\<close> that contains no such pattern (and
  is not empty nor the sentinel) is returned unchanged. \<open>T\<close> is no digit.
\<close>

theorem C5_publish_date_shapes:
  "(analyze_single dg self p n = (Some r, n') \<longrightarrow>
      r_publish_date r = format_publish_date dg (publish_date p)) \<and>
   (s = [] \<or> s = zanwu \<longrightarrow> format_publish_date dg s = zanwu) \<and>
   (\<not> dg 84 \<and> date_shape dg d \<longrightarrow> format_publish_date dg (d @ 84 # rest) = d) \<and>
   (84 \<notin> set s \<and> s = pre @ m @ post \<and> date_shape dg m \<longrightarrow>
      date_shape dg (format_publish_date dg s)) \<and>
   (84 \<notin> set s \<and> s = pre @ m @ post \<and> date_shape dg m \<and>
    (\<forall>pre' m' post'. s = pre' @ m' @ post' \<and> date_shape dg m' \<longrightarrow> length pre \<le> length pre') \<longrightarrow>
      format_publish_date dg s = m) \<and>
   (s \<noteq> [] \<and> s \<noteq> zanwu \<and> 84 \<notin> set s \<and>
    \<not> (\<exists>pre m post. s = pre @ m @ post \<and> date_shape dg m) \<longrightarrow>
      format_publish_date dg s = s)"
proof (intro conjI impI)
  assume "analyze_single dg self p n = (Some r, n')"
  then show "r_publish_date r = format_publish_date dg (publish_date p)"
    by (rule analyze_single_publish_date)
next
  assume "s = [] \<or> s = zanwu"
  then show "format_publish_date dg s = zanwu" by (rule format_publish_date_sentinel)
next
  assume "\<not> dg 84 \<and> date_shape dg d"
  then show "format_publish_date dg (d @ 84 # rest) = d"
    by (simp add: format_publish_date_iso)
next
  assume "84 \<notin> set s \<and> s = pre @ m @ post \<and> date_shape dg m"
  then show "date_shape dg (format_publish_date dg s)"
    by (intro format_publish_date_contains [of s pre m post]) blast+
next
  assume "84 \<notin> set s \<and> s = pre @ m @ post \<and> date_shape dg m \<and>
    (\<forall>pre' m' post'. s = pre' @ m' @ post' \<and> date_shape dg m' \<longrightarrow> length pre \<le> length pre')"
  then show "format_publish_date dg s = m"
    by (intro format_publish_date_leftmost [of s pre m post]) blast+
next
  assume "s \<noteq> [] \<and> s \<noteq> zanwu \<and> 84 \<notin> set s \<and>
    \<not> (\<exists>pre m post. s = pre @ m @ post \<and> date_shape dg m)"
  then show "format_publish_date dg s = s"
    by (intro format_publish_date_no_pattern) blast+
qed

theorem C5_publish_date_shapes_witness:
  "r_publish_date (basic_result ascii_digit demo_paper) = of_ascii ''2025-07-31'' \<and>
   format_publish_date ascii_digit [] = zanwu \<and>
   format_publish_date ascii_digit (of_ascii ''2025-07-31'' @ 84 # of_ascii ''17:00:30.000Z'') =
     of_ascii ''2025-07-31'' \<and>
   date_shape ascii_digit (format_publish_date ascii_digit (of_ascii ''Published 2025-07-31.'')) \<and>
   format_publish_date ascii_digit (of_ascii ''2024-01-01 and 2025-07-31'') =
     of_ascii ''2024-01-01'' \<and>
   format_publish_date ascii_digit (of_ascii ''31 July 2025'') = of_ascii ''31 July 2025''"
proof -
  have a: "analyze_single ascii_digit rules_only demo_paper 0 =
             (Some (basic_result ascii_digit demo_paper), 0)"
    by (simp add: analyze_single_def rules_only_def)
  have d: "format_publish_date ascii_digit (publish_date demo_paper) = of_ascii ''2025-07-31''"
    by (simp add: demo_paper_def format_publish_date_def of_ascii_def zanwu_def)
  note t = C5_publish_date_shapes [where dg = ascii_digit and self = rules_only
      and p = demo_paper and n = 0 and r = "basic_result ascii_digit demo_paper" and n' = 0]
  from t [of "[]"] a d
  have 1: "r_publish_date (basic_result ascii_digit demo_paper) = of_ascii ''2025-07-31''"
    by simp
  from t [of "[]"] have 2: "format_publish_date ascii_digit [] = zanwu"
    by blast
  have h3: "\<not> ascii_digit 84 \<and> date_shape ascii_digit (of_ascii ''2025-07-31'')"
    by (simp add: ascii_digit_def of_ascii_def)
  from t [where d = "of_ascii ''2025-07-31''" and rest = "of_ascii ''17:00:30.000Z''"] h3
  have 3: "format_publish_date ascii_digit (of_ascii ''2025-07-31'' @ 84 # of_ascii ''17:00:30.000Z'') =
     of_ascii ''2025-07-31''"
    by blast
  have h4: "84 \<notin> set (of_ascii ''Published 2025-07-31.'') \<and>
     of_ascii ''Published 2025-07-31.'' =
       of_ascii ''Published '' @ of_ascii ''2025-07-31'' @ of_ascii ''.'' \<and>
     date_shape ascii_digit (of_ascii ''2025-07-31'')"
    by (simp add: ascii_digit_def of_ascii_def)
  from t [where s = "of_ascii ''Published 2025-07-31.''" and pre = "of_ascii ''Published ''"
      and m = "of_ascii ''2025-07-31''" and post = "of_ascii ''.''"] h4
  have 4: "date_shape ascii_digit (format_publish_date ascii_digit (of_ascii ''Published 2025-07-31.''))"
    by blast
  have h5: "84 \<notin> set (of_ascii ''2024-01-01 and 2025-07-31'') \<and>
     of_ascii ''2024-01-01 and 2025-07-31'' =
       [] @ of_ascii ''2024-01-01'' @ of_ascii '' and 2025-07-31'' \<and>
     date_shape ascii_digit (of_ascii ''2024-01-01'') \<and>
     (\<forall>pre' m' post'. of_ascii ''2024-01-01 and 2025-07-31'' = pre' @ m' @ post' \<and>
        date_shape ascii_digit m' \<longrightarrow> length ([] :: ustr) \<le> length pre')"
    by (simp add: ascii_digit_def of_ascii_def)
  from t [where s = "of_ascii ''2024-01-01 and 2025-07-31''" and pre = "[]"
      and m = "of_ascii ''2024-01-01''" and post = "of_ascii '' and 2025-07-31''"] h5
  have 5: "format_publish_date ascii_digit (of_ascii ''2024-01-01 and 2025-07-31'') =
     of_ascii ''2024-01-01''"
    by blast
  have "re_search_date ascii_digit (of_ascii ''31 July 2025'') = None"
    by (simp add: of_ascii_def ascii_digit_def)
  then have h6: "of_ascii ''31 July 2025'' \<noteq> [] \<and> of_ascii ''31 July 2025'' \<noteq> zanwu \<and>
     84 \<notin> set (of_ascii ''31 July 2025'') \<and>
     \<not> (\<exists>pre m post. of_ascii ''31 July 2025'' = pre @ m @ post \<and> date_shape ascii_digit m)"
    unfolding re_search_date_None_iff by (simp add: of_ascii_def zanwu_def)
  from t [where s = "of_ascii ''31 July 2025''"] h6
  have 6: "format_publish_date ascii_digit (of_ascii ''31 July 2025'') = of_ascii ''31 July 2025''"
    by blast
  from 1 2 3 4 5 6 show ?thesis by blast
qed

text \<open>
  C6 at a failing input: the string "2025-07-31 17:00 UTC" begins with a pattern of the shape
  YYYY-MM-DD, which the regular expression finds, but the test for \<open>T\<close> comes first and the
  string is cut at the \<open>T\<close> of UTC: the result is "2025-07-31 17:00 U", not the pattern. The
  three examples of the claim hold.
\<close>

theorem C6_T_cut_hides_pattern:
  "of_ascii ''2025-07-31 17:00 UTC'' = of_ascii ''2025-07-31'' @ of_ascii '' 17:00 UTC'' \<and>
   date_shape ascii_digit (of_ascii ''2025-07-31'') \<and>
   re_search_date ascii_digit (of_ascii ''2025-07-31 17:00 UTC'') = Some (of_ascii ''2025-07-31'') \<and>
   format_publish_date ascii_digit (of_ascii ''2025-07-31 17:00 UTC'') =
     of_ascii ''2025-07-31 17:00 U'' \<and>
   of_ascii ''2025-07-31 17:00 U'' \<noteq> of_ascii ''2025-07-31'' \<and>
   format_publish_date dg (of_ascii ''2025-07-31T17:00:30.000Z'') = of_ascii ''2025-07-31'' \<and>
   format_publish_date dg (of_ascii ''2025-07-31'') = of_ascii ''2025-07-31'' \<and>
   format_publish_date dg [] = zanwu"
  by (simp add: format_publish_date_def of_ascii_def zanwu_def py_count_def ascii_digit_def)

section \<open>One paper\<close>

lemma fallback_summary_zh_cases:
  "fallback_summary_zh s =
     (if 200 < length s then take 200 s @ ellipsis
      else if s = [] \<or> s = zanwu then no_summary else s)"
  by (auto simp: fallback_summary_zh_def Let_def ellipsis_def zanwu_def)

lemma fallback_summary_zh_not_Nil: "fallback_summary_zh s \<noteq> []"
  by (simp add: fallback_summary_zh_cases ellipsis_def no_summary_def)

lemma analyze_single_disabled:
  "\<not> use_ai self \<or> ai_client self = None \<Longrightarrow>
     analyze_single dg self p n = (Some (basic_result dg p), n)"
  by (auto simp: analyze_single_def split: option.splits)

lemma analyze_single_enabled:
  "use_ai self \<Longrightarrow> ai_client self = Some chat \<Longrightarrow>
     analyze_single dg self p n =
       (case retry_loop chat p 3 n of
          (None, n') \<Rightarrow> (None, n')
        | (Some response, n') \<Rightarrow> (Some (result_of_response dg p response), n'))"
  by (simp add: analyze_single_def)

lemma analyze_single_cases:
  assumes "analyze_single dg self p n = (Some r, n')"
  shows "((\<not> use_ai self \<or> ai_client self = None) \<and> r = basic_result dg p \<and> n' = n) \<or>
         (\<exists>chat response. use_ai self \<and> ai_client self = Some chat \<and>
            retry_loop chat p 3 n = (Some response, n') \<and> r = result_of_response dg p response)"
  using assms
  by (auto simp: analyze_single_def split: option.splits if_splits prod.splits)

lemma analyze_single_r_id:
  "analyze_single dg self p n = (Some r, n') \<Longrightarrow> r_id r = p_id p"
  by (auto dest!: analyze_single_cases simp: basic_result_def result_of_response_def Let_def)

lemma summary_zh_basic_result: "summary_zh (basic_result dg p) = fallback_summary_zh (summary p)"
  by (simp add: basic_result_def)

lemma title_zh_basic_result: "title_zh (basic_result dg p) = translation p"
  by (simp add: basic_result_def)

lemma title_zh_result_of_response:
  "title_zh (result_of_response dg p response) =
     (if py_strip (pf_title_zh (parse_ai_response response)) = [] then title p
      else py_strip (pf_title_zh (parse_ai_response response)))"
  by (simp add: result_of_response_def Let_def)

lemma summary_zh_result_of_response:
  "summary_zh (result_of_response dg p response) =
     (if py_strip (pf_summary_zh (parse_ai_response response)) = []
      then fallback_summary_zh (summary p)
      else py_strip (pf_summary_zh (parse_ai_response response)))"
  by (simp add: result_of_response_def Let_def)

lemma retry_loop_Some_not_Nil:
  "retry_loop chat p k n = (Some response, n') \<Longrightarrow> response \<noteq> []"
  by (induction chat p k n rule: retry_loop.induct)
     (auto split: chat_outcome.splits if_splits)


lemma foldl_parse_line_title:
  "\<forall>l \<in> set ls. \<not> py_startswith (py_strip l) label_title_zh \<Longrightarrow>
     pf_title_zh (foldl parse_line pf ls) = pf_title_zh pf"
  by (induction ls arbitrary: pf) (auto simp: parse_line_def Let_def)

lemma foldl_parse_line_summary:
  "\<forall>l \<in> set ls. \<not> py_startswith (py_strip l) label_summary_zh \<Longrightarrow>
     pf_summary_zh (foldl parse_line pf ls) = pf_summary_zh pf"
  by (induction ls arbitrary: pf) (auto simp: parse_line_def Let_def)

lemma parse_ai_response_no_title:
  "\<forall>l \<in> set (py_split 10 (py_strip response)). \<not> py_startswith (py_strip l) label_title_zh \<Longrightarrow>
     pf_title_zh (parse_ai_response response) = []"
  by (simp add: parse_ai_response_def Let_def foldl_parse_line_title)

lemma parse_ai_response_no_summary:
  "\<forall>l \<in> set (py_split 10 (py_strip response)). \<not> py_startswith (py_strip l) label_summary_zh \<Longrightarrow>
     pf_summary_zh (parse_ai_response response) = []"
  by (simp add: parse_ai_response_def Let_def foldl_parse_line_summary)

lemma py_strip_Nil: "py_strip [] = []"
  by (simp add: py_strip_def)

lemma retry_unlabelled:
  "retry_loop unlabelled_client p 3 n = (Some (of_ascii ''Sorry, I cannot help.''), Suc n)"
  by (simp add: unlabelled_client_def numeral_3_eq_3 of_ascii_def)

lemma retry_labelled:
  "retry_loop labelled_client p 3 n = (Some labelled_reply, Suc n)"
  by (simp add: labelled_client_def numeral_3_eq_3 labelled_reply_def label_title_zh_def)

lemma retry_failing:
  "retry_loop failing_client p 3 n = (None, n + 3)"
  by (simp add: failing_client_def numeral_3_eq_3)

lemma unlabelled_lines:
  "\<forall>l \<in> set (py_split 10 (py_strip (of_ascii ''Sorry, I cannot help.''))).
     \<not> py_startswith (py_strip l) label_title_zh \<and> \<not> py_startswith (py_strip l) label_summary_zh"
  by (simp add: of_ascii_def py_strip_def py_isspace_def py_startswith_def
        label_title_zh_def label_summary_zh_def)

lemma parse_labelled:
  "parse_ai_response labelled_reply =
     \<lparr>pf_title_zh = [26631, 39064], pf_summary_zh = [25688, 35201], pf_model_function = zanwu\<rparr>"
  by (simp add: parse_ai_response_def labelled_reply_def label_title_zh_def label_summary_zh_def
        label_model_function_def py_strip_def py_isspace_def py_startswith_def parse_line_def
        Let_def zanwu_def)


text \<open>
  C3: in every result of \<open>analyze_single\<close> for a canonical paper (title and translation not
  empty, as the data model requires and the cleaner writes) the Chinese title and the
  Chinese summary are non-empty, with the assistant enabled or disabled and whatever the
  reply holds. The summary is non-empty for every paper. With the assistant disabled the
  title is the paper's translation; when the reply has no title (no line with the title
  label, or nothing after it) the title is the English title, and when it has no summary
  the summary is the English summary, cut to 200 characters plus an ellipsis when it is
  longer, or the no-summary sentinel when it is empty or the sentinel.
\<close>

theorem C3_title_summary_zh:
  assumes "analyze_single dg self p n = (Some r, n')"
  shows
  "(canonical p \<longrightarrow> title_zh r \<noteq> [] \<and> summary_zh r \<noteq> []) \<and>
   summary_zh r \<noteq> [] \<and>
   (\<not> use_ai self \<or> ai_client self = None \<longrightarrow>
      title_zh r = translation p \<and> summary_zh r = fallback_summary_zh (summary p)) \<and>
   (\<forall>chat response.
      use_ai self \<and> ai_client self = Some chat \<and> retry_loop chat p 3 n = (Some response, n') \<longrightarrow>
        (title p \<noteq> [] \<longrightarrow> title_zh r \<noteq> []) \<and>
        (py_strip (pf_title_zh (parse_ai_response response)) = [] \<longrightarrow> title_zh r = title p) \<and>
        ((\<forall>l \<in> set (py_split 10 (py_strip response)).
            \<not> py_startswith (py_strip l) label_title_zh) \<longrightarrow> title_zh r = title p) \<and>
        (py_strip (pf_summary_zh (parse_ai_response response)) = [] \<longrightarrow>
           summary_zh r = fallback_summary_zh (summary p)) \<and>
        ((\<forall>l \<in> set (py_split 10 (py_strip response)).
            \<not> py_startswith (py_strip l) label_summary_zh) \<longrightarrow>
           summary_zh r = fallback_summary_zh (summary p))) \<and>
   fallback_summary_zh (summary p) =
     (if 200 < length (summary p) then take 200 (summary p) @ ellipsis
      else if summary p = [] \<or> summary p = zanwu then no_summary else summary p)"
proof -
  consider
    (off) "\<not> use_ai self \<or> ai_client self = None" "r = basic_result dg p"
  | (on) chat response where "use_ai self" "ai_client self = Some chat"
      "retry_loop chat p 3 n = (Some response, n')" "r = result_of_response dg p response"
    using analyze_single_cases [OF assms] by auto
  then show ?thesis
  proof cases
    case off
    then show ?thesis
      by (auto simp: summary_zh_basic_result title_zh_basic_result fallback_summary_zh_not_Nil
            fallback_summary_zh_cases [symmetric] canonical_def)
  next
    case on
    note r = on(4)
    have s: "summary_zh r \<noteq> []"
      by (simp add: r summary_zh_result_of_response fallback_summary_zh_not_Nil)
    have t: "title p \<noteq> [] \<longrightarrow> title_zh r \<noteq> []"
      by (simp add: r title_zh_result_of_response)
    have t1: "py_strip (pf_title_zh (parse_ai_response response)) = [] \<longrightarrow> title_zh r = title p"
      by (simp add: r title_zh_result_of_response)
    have t2: "(\<forall>l \<in> set (py_split 10 (py_strip response)).
                \<not> py_startswith (py_strip l) label_title_zh) \<longrightarrow> title_zh r = title p"
      by (simp add: r title_zh_result_of_response parse_ai_response_no_title py_strip_Nil)
    have s1: "py_strip (pf_summary_zh (parse_ai_response response)) = [] \<longrightarrow>
                summary_zh r = fallback_summary_zh (summary p)"
      by (simp add: r summary_zh_result_of_response)
    have s2: "(\<forall>l \<in> set (py_split 10 (py_strip response)).
                \<not> py_startswith (py_strip l) label_summary_zh) \<longrightarrow>
                summary_zh r = fallback_summary_zh (summary p)"
      by (simp add: r summary_zh_result_of_response parse_ai_response_no_summary py_strip_Nil)
    show ?thesis
      using s t t1 t2 s1 s2 on(1,2,3)
      by (auto simp: fallback_summary_zh_cases [symmetric] canonical_def)
  qed
qed



theorem C3_title_summary_zh_witness:
  "canonical demo_paper \<and>
   title_zh (result_of_response ascii_digit demo_paper (of_ascii ''Sorry, I cannot help.'')) \<noteq> [] \<and>
   title_zh (basic_result ascii_digit demo_paper) = of_ascii ''A Title'' \<and>
   summary_zh (basic_result ascii_digit demo_paper) \<noteq> [] \<and>
   title_zh (result_of_response ascii_digit demo_paper (of_ascii ''Sorry, I cannot help.'')) =
     of_ascii ''A Title'' \<and>
   summary_zh (result_of_response ascii_digit demo_paper (of_ascii ''Sorry, I cannot help.'')) =
     of_ascii ''A short summary.''"
proof -
  have a1: "analyze_single ascii_digit rules_only demo_paper 0 =
              (Some (basic_result ascii_digit demo_paper), 0)"
    by (simp add: analyze_single_def rules_only_def)
  have off: "\<not> use_ai rules_only \<or> ai_client rules_only = None"
    by (simp add: rules_only_def)
  have a2: "analyze_single ascii_digit (assisted unlabelled_client) demo_paper 0 =
              (Some (result_of_response ascii_digit demo_paper (of_ascii ''Sorry, I cannot help.'')),
               Suc 0)"
    by (simp add: analyze_single_def assisted_def retry_unlabelled)
  have on: "use_ai (assisted unlabelled_client) \<and>
            ai_client (assisted unlabelled_client) = Some unlabelled_client \<and>
            retry_loop unlabelled_client demo_paper 3 0 =
              (Some (of_ascii ''Sorry, I cannot help.''), Suc 0)"
    by (simp add: assisted_def retry_unlabelled)
  have tr: "translation demo_paper = of_ascii ''A Title''" "title demo_paper = of_ascii ''A Title''"
    by (simp_all add: demo_paper_def)
  have fb: "(if 200 < length (summary demo_paper) then take 200 (summary demo_paper) @ ellipsis
             else if summary demo_paper = [] \<or> summary demo_paper = zanwu then no_summary
             else summary demo_paper) = of_ascii ''A short summary.''"
    by (simp add: demo_paper_def of_ascii_def zanwu_def)
  note c1 = C3_title_summary_zh [OF a1]
  from c1 have s1: "summary_zh (basic_result ascii_digit demo_paper) \<noteq> []"
    by blast
  from c1 off have "title_zh (basic_result ascii_digit demo_paper) = translation demo_paper"
    by blast
  with s1 tr have 1: "title_zh (basic_result ascii_digit demo_paper) = of_ascii ''A Title'' \<and>
           summary_zh (basic_result ascii_digit demo_paper) \<noteq> []"
    by simp
  note c2 = C3_title_summary_zh [OF a2]
  from c2 on unlabelled_lines
  have "title_zh (result_of_response ascii_digit demo_paper (of_ascii ''Sorry, I cannot help.'')) =
          title demo_paper \<and>
        summary_zh (result_of_response ascii_digit demo_paper (of_ascii ''Sorry, I cannot help.'')) =
          fallback_summary_zh (summary demo_paper)"
    by blast
  moreover from c2 have "fallback_summary_zh (summary demo_paper) =
     (if 200 < length (summary demo_paper) then take 200 (summary demo_paper) @ ellipsis
      else if summary demo_paper = [] \<or> summary demo_paper = zanwu then no_summary
      else summary demo_paper)"
    by blast
  ultimately
  have 2: "title_zh (result_of_response ascii_digit demo_paper (of_ascii ''Sorry, I cannot help.'')) =
             of_ascii ''A Title'' \<and>
           summary_zh (result_of_response ascii_digit demo_paper (of_ascii ''Sorry, I cannot help.'')) =
             of_ascii ''A short summary.''"
    using tr fb by simp
  have c: "canonical demo_paper"
    by (simp add: canonical_def demo_paper_def of_ascii_def)
  from c2 c have 3: "title_zh (result_of_response ascii_digit demo_paper
      (of_ascii ''Sorry, I cannot help.'')) \<noteq> []"
    by blast
  from 1 2 3 c show ?thesis by simp
qed

text \<open>
  C9: with \<open>use_ai\<close> false, \<open>analyze_single\<close> returns the basic result made of the paper's own
  fields, whatever the client is, and the number of assistant calls does not change; when
  the summary has 500 characters, the Chinese summary is its first 200 characters followed
  by the ellipsis.
\<close>

theorem C9_disabled_basic_result:
  assumes "\<not> use_ai self"
  shows
  "\<exists>r. analyze_single dg self p n = (Some r, n) \<and>
       (\<forall>c. analyze_single dg (self\<lparr>ai_client := c\<rparr>) p n = (Some r, n)) \<and>
       r_id r = p_id p \<and> title_en r = title p \<and> title_zh r = translation p \<and>
       r_url r = url p \<and> r_authors r = authors p \<and>
       r_publish_date r = format_publish_date dg (publish_date p) \<and>
       summary_en r = summary p \<and> r_github_repo r = github_repo p \<and>
       r_project_page r = project_page p \<and> model_function r = zanwu \<and>
       (length (summary p) = 500 \<longrightarrow> summary_zh r = take 200 (summary p) @ ellipsis)"
proof (intro exI [of _ "basic_result dg p"] conjI allI impI)
  show "analyze_single dg self p n = (Some (basic_result dg p), n)"
    using assms by (simp add: analyze_single_disabled)
  show "analyze_single dg (self\<lparr>ai_client := c\<rparr>) p n = (Some (basic_result dg p), n)" for c
    using assms by (simp add: analyze_single_disabled)
  show "summary_zh (basic_result dg p) = take 200 (summary p) @ ellipsis"
    if "length (summary p) = 500"
    using that by (simp add: summary_zh_basic_result fallback_summary_zh_cases)
qed (simp_all add: basic_result_def)

theorem C9_disabled_basic_result_witness:
  "\<not> use_ai ((assisted failing_client)\<lparr>use_ai := False\<rparr>) \<and>
   length (summary long_paper) = 500 \<and>
   (\<exists>r. analyze_single ascii_digit ((assisted failing_client)\<lparr>use_ai := False\<rparr>) long_paper 0 =
           (Some r, 0) \<and>
        summary_zh r = replicate 200 97 @ [46, 46, 46])"
proof -
  have h: "\<not> use_ai ((assisted failing_client)\<lparr>use_ai := False\<rparr>)" by simp
  have l: "length (summary long_paper) = 500" by (simp add: long_paper_def)
  have t: "take 200 (summary long_paper) @ ellipsis = replicate 200 97 @ [46, 46, 46]"
    by (simp add: long_paper_def ellipsis_def)
  from C9_disabled_basic_result [OF h, of ascii_digit long_paper 0] l t h show ?thesis
    by auto
qed


section \<open>The Result Store\<close>

lemma extract_paper_id_to_dict: "extract_paper_id_from_result (to_dict r) = r_id r"
  by (simp add: extract_paper_id_from_result_def to_dict_def of_ascii_def)

lemma load_save_single_result:
  "load_existing_results (save_single_result result f) =
     filter (\<lambda>e. extract_paper_id_from_result e \<noteq> r_id result) (load_existing_results f) @
     [to_dict result]"
  by (simp add: save_single_result_def load_existing_results_def paper_id_def)

lemma load_Records: "load_existing_results (Records es) = es"
  by (simp add: load_existing_results_def)

lemma stored_after_Nil: "stored_after es [] = es"
  by (simp add: stored_after_def)

lemma stored_after_Cons:
  "stored_after es (r # rs) =
     stored_after (load_existing_results (save_single_result r (Records es))) rs"
  by (simp add: stored_after_def)

lemma stored_after_snoc:
  "stored_after es (rs @ [r]) =
     filter (\<lambda>e. extract_paper_id_from_result e \<noteq> r_id r) (stored_after es rs) @ [to_dict r]"
proof -
  have "stored_after es (rs @ [r]) =
          load_existing_results (save_single_result r (Records (stored_after es rs)))"
    by (simp add: stored_after_def)
  then show ?thesis by (simp add: load_save_single_result load_Records)
qed

lemma entries_of_id_stored_after:
  "filter (\<lambda>e. extract_paper_id_from_result e = i) (stored_after es rs) =
     (if \<exists>r \<in> set rs. r_id r = i then [to_dict (last (filter (\<lambda>r. r_id r = i) rs))]
      else filter (\<lambda>e. extract_paper_id_from_result e = i) es)"
proof (induction rs rule: rev_induct)
  case Nil
  then show ?case by (simp add: stored_after_Nil)
next
  case (snoc r rs)
  show ?case
  proof (cases "r_id r = i")
    case True
    then show ?thesis
      by (simp add: stored_after_snoc extract_paper_id_to_dict)
  next
    case False
    have "filter (\<lambda>e. extract_paper_id_from_result e = i)
            (filter (\<lambda>e. extract_paper_id_from_result e \<noteq> r_id r) (stored_after es rs)) =
          filter (\<lambda>e. extract_paper_id_from_result e = i) (stored_after es rs)"
      using False by (auto intro: filter_cong)
    with False snoc.IH show ?thesis
      by (simp add: stored_after_snoc extract_paper_id_to_dict)
  qed
qed

lemma length_filter_neq:
  "length (filter (\<lambda>e. f e \<noteq> i) xs) + length (filter (\<lambda>e. f e = i) xs) = length xs"
  by (induction xs) auto

lemma length_stored_after:
  assumes "\<forall>e \<in> set es. extract_paper_id_from_result e \<notin> r_id ` set rs"
  shows "length (stored_after es rs) = length es + card (r_id ` set rs)"
  using assms
proof (induction rs rule: rev_induct)
  case Nil
  then show ?case by (simp add: stored_after_Nil)
next
  case (snoc r rs)
  let ?X = "stored_after es rs"
  have IH: "length ?X = length es + card (r_id ` set rs)"
    using snoc by auto
  have len: "length (stored_after es (rs @ [r])) =
               length (filter (\<lambda>e. extract_paper_id_from_result e \<noteq> r_id r) ?X) + 1"
    by (simp add: stored_after_snoc)
  show ?case
  proof (cases "r_id r \<in> r_id ` set rs")
    case True
    then have "length (filter (\<lambda>e. extract_paper_id_from_result e = r_id r) ?X) = 1"
      by (auto simp: entries_of_id_stored_after)
    with length_filter_neq [of extract_paper_id_from_result "r_id r" ?X]
    have "length (filter (\<lambda>e. extract_paper_id_from_result e \<noteq> r_id r) ?X) + 1 = length ?X"
      by simp
    moreover have "r_id ` set (rs @ [r]) = r_id ` set rs" using True by auto
    ultimately show ?thesis using len IH by simp
  next
    case False
    have "filter (\<lambda>e. extract_paper_id_from_result e = r_id r) es = []"
      using snoc.prems by (auto simp: filter_empty_conv)
    moreover from False have "\<not> (\<exists>ra \<in> set rs. r_id ra = r_id r)" by (metis imageI)
    ultimately have "length (filter (\<lambda>e. extract_paper_id_from_result e = r_id r) ?X) = 0"
      by (simp add: entries_of_id_stored_after)
    with length_filter_neq [of extract_paper_id_from_result "r_id r" ?X]
    have "length (filter (\<lambda>e. extract_paper_id_from_result e \<noteq> r_id r) ?X) = length ?X"
      by simp
    moreover have "card (r_id ` set (rs @ [r])) = Suc (card (r_id ` set rs))"
      using False by simp
    ultimately show ?thesis using len IH by simp
  qed
qed


section \<open>The batch loop\<close>

lemma batch_loop_Nil: "batch_loop dg self dated E st [] = st"
  by (simp add: batch_loop_def)

lemma batch_loop_Cons:
  "batch_loop dg self dated E st (p # ps) =
     batch_loop dg self dated E (batch_step dg self dated E st p) ps"
  by (simp add: batch_loop_def)

lemma batch_step_skip:
  "dated \<and> p_id p \<in> E \<Longrightarrow>
     batch_step dg self dated E st p = st\<lparr>skip_count := skip_count st + 1\<rparr>"
  by (simp add: batch_step_def)

lemma batch_step_success:
  "\<not> (dated \<and> p_id p \<in> E) \<Longrightarrow> analyze_single dg self p (calls st) = (Some r, n) \<Longrightarrow>
     batch_step dg self dated E st p =
       st\<lparr>processed_count := processed_count st + 1, calls := n,
          store := (if dated then save_single_result r (store st) else store st),
          results := results st @ [r],
          success_count := success_count st + 1\<rparr>"
  by (auto simp: batch_step_def)

lemma batch_step_failure:
  "\<not> (dated \<and> p_id p \<in> E) \<Longrightarrow> analyze_single dg self p (calls st) = (None, n) \<Longrightarrow>
     batch_step dg self dated E st p =
       st\<lparr>processed_count := processed_count st + 1, calls := n,
          fail_count := fail_count st + 1\<rparr>"
  by (auto simp: batch_step_def)

text \<open>The three ways an iteration can go.\<close>

lemma batch_step_cases:
  obtains (skip) "dated" "p_id p \<in> E"
      "batch_step dg self dated E st p = st\<lparr>skip_count := skip_count st + 1\<rparr>"
  | (success) r n where "\<not> (dated \<and> p_id p \<in> E)"
      "analyze_single dg self p (calls st) = (Some r, n)"
      "batch_step dg self dated E st p =
         st\<lparr>processed_count := processed_count st + 1, calls := n,
            store := (if dated then save_single_result r (store st) else store st),
            results := results st @ [r],
            success_count := success_count st + 1\<rparr>"
  | (failure) n where "\<not> (dated \<and> p_id p \<in> E)"
      "analyze_single dg self p (calls st) = (None, n)"
      "batch_step dg self dated E st p =
         st\<lparr>processed_count := processed_count st + 1, calls := n,
            fail_count := fail_count st + 1\<rparr>"
proof (cases "dated \<and> p_id p \<in> E")
  case True
  then show ?thesis using skip batch_step_skip [of dated p E dg self st] by simp
next
  case False
  obtain x n where a: "analyze_single dg self p (calls st) = (x, n)" by (cases "analyze_single dg self p (calls st)")
  show ?thesis
  proof (cases x)
    case None
    with a False failure batch_step_failure [of dated p E dg self st n] show ?thesis by simp
  next
    case (Some r)
    with a False success batch_step_success [of dated p E dg self st r n] show ?thesis by simp
  qed
qed

lemma skip_count_batch_loop:
  "skip_count (batch_loop dg self dated E st ps) =
     skip_count st + length (filter (\<lambda>p. dated \<and> p_id p \<in> E) ps)"
proof (induction ps arbitrary: st)
  case Nil
  then show ?case by (simp add: batch_loop_Nil)
next
  case (Cons p ps)
  show ?case
    using Cons.IH [of "batch_step dg self dated E st p"]
    by (cases rule: batch_step_cases [of dated p E dg self st])
       (simp_all add: batch_loop_Cons)
qed

lemma processed_count_batch_loop:
  "processed_count (batch_loop dg self dated E st ps) =
     processed_count st + length (filter (\<lambda>p. \<not> (dated \<and> p_id p \<in> E)) ps)"
proof (induction ps arbitrary: st)
  case Nil
  then show ?case by (simp add: batch_loop_Nil)
next
  case (Cons p ps)
  show ?case
    using Cons.IH [of "batch_step dg self dated E st p"]
    by (cases rule: batch_step_cases [of dated p E dg self st])
       (simp_all add: batch_loop_Cons)
qed

lemma success_fail_batch_loop:
  "success_count (batch_loop dg self dated E st ps) + fail_count (batch_loop dg self dated E st ps) =
     success_count st + fail_count st + length (filter (\<lambda>p. \<not> (dated \<and> p_id p \<in> E)) ps)"
proof (induction ps arbitrary: st)
  case Nil
  then show ?case by (simp add: batch_loop_Nil)
next
  case (Cons p ps)
  show ?case
    using Cons.IH [of "batch_step dg self dated E st p"]
    by (cases rule: batch_step_cases [of dated p E dg self st])
       (simp_all add: batch_loop_Cons)
qed

lemma fail_count_mono: "fail_count st \<le> fail_count (batch_loop dg self dated E st ps)"
proof (induction ps arbitrary: st)
  case Nil
  then show ?case by (simp add: batch_loop_Nil)
next
  case (Cons p ps)
  have "fail_count st \<le> fail_count (batch_step dg self dated E st p)"
    by (cases rule: batch_step_cases [of dated p E dg self st]) simp_all
  also have "\<dots> \<le> fail_count (batch_loop dg self dated E (batch_step dg self dated E st p) ps)"
    by (rule Cons.IH)
  finally show ?case by (simp add: batch_loop_Cons)
qed

lemma length_results_batch_loop:
  "length (results (batch_loop dg self dated E st ps)) + success_count st =
     length (results st) + success_count (batch_loop dg self dated E st ps)"
proof (induction ps arbitrary: st)
  case Nil
  then show ?case by (simp add: batch_loop_Nil)
next
  case (Cons p ps)
  show ?case
    using Cons.IH [of "batch_step dg self dated E st p"]
    by (cases rule: batch_step_cases [of dated p E dg self st])
       (simp_all add: batch_loop_Cons)
qed


lemma load_save_Records_load:
  "load_existing_results (save_single_result r (Records (load_existing_results f))) =
     load_existing_results (save_single_result r f)"
  by (simp add: load_save_single_result load_Records)

text \<open>
  What the loop adds: the new results, the file after their saves, and, when nothing
  failed, one result for each paper that was not skipped.
\<close>

lemma batch_loop_results:
  "\<exists>new. results (batch_loop dg self dated E st ps) = results st @ new \<and>
     load_existing_results (store (batch_loop dg self dated E st ps)) =
       (if dated then stored_after (load_existing_results (store st)) new
        else load_existing_results (store st)) \<and>
     (new = [] \<longrightarrow> store (batch_loop dg self dated E st ps) = store st) \<and>
     (fail_count (batch_loop dg self dated E st ps) = fail_count st \<longrightarrow>
        map r_id new = map p_id (filter (\<lambda>p. \<not> (dated \<and> p_id p \<in> E)) ps))"
proof (induction ps arbitrary: st)
  case Nil
  show ?case by (simp add: batch_loop_Nil stored_after_Nil)
next
  case (Cons p ps)
  let ?st1 = "batch_step dg self dated E st p"
  let ?st' = "batch_loop dg self dated E ?st1 ps"
  from Cons.IH [of ?st1] obtain new1 where
    res: "results ?st' = results ?st1 @ new1" and
    sto: "load_existing_results (store ?st') =
            (if dated then stored_after (load_existing_results (store ?st1)) new1
             else load_existing_results (store ?st1))" and
    emp: "new1 = [] \<longrightarrow> store ?st' = store ?st1" and
    ids: "fail_count ?st' = fail_count ?st1 \<longrightarrow>
            map r_id new1 = map p_id (filter (\<lambda>p. \<not> (dated \<and> p_id p \<in> E)) ps)"
    by blast
  have mono: "fail_count ?st1 \<le> fail_count ?st'" by (rule fail_count_mono)
  show ?case
  proof (cases rule: batch_step_cases [of dated p E dg self st])
    case skip
    have f: "results ?st1 = results st" "store ?st1 = store st"
      "fail_count ?st1 = fail_count st"
      by (simp_all add: skip(3))
    have "results ?st' = results st @ new1" using res f(1) by simp
    moreover have "load_existing_results (store ?st') =
        (if dated then stored_after (load_existing_results (store st)) new1
         else load_existing_results (store st))"
      using sto unfolding f(2) .
    moreover have "new1 = [] \<longrightarrow> store ?st' = store st" using emp unfolding f(2) .
    moreover have "fail_count ?st' = fail_count st \<longrightarrow>
        map r_id new1 = map p_id (filter (\<lambda>p. \<not> (dated \<and> p_id p \<in> E)) (p # ps))"
      using ids skip(1,2) unfolding f(3) by simp
    ultimately show ?thesis unfolding batch_loop_Cons by blast
  next
    case (success r n)
    have f: "results ?st1 = results st @ [r]"
      "store ?st1 = (if dated then save_single_result r (store st) else store st)"
      "fail_count ?st1 = fail_count st"
      by (simp_all add: success(3))
    have "results ?st' = results st @ (r # new1)" using res f(1) by simp
    moreover have "load_existing_results (store ?st') =
        (if dated then stored_after (load_existing_results (store st)) (r # new1)
         else load_existing_results (store st))"
    proof (cases dated)
      case True
      then show ?thesis
        using sto unfolding f(2) by (simp add: stored_after_Cons load_save_Records_load)
    next
      case False
      then show ?thesis using sto unfolding f(2) by simp
    qed
    moreover have "r # new1 \<noteq> []" by simp
    moreover have "fail_count ?st' = fail_count st \<longrightarrow>
        map r_id (r # new1) = map p_id (filter (\<lambda>p. \<not> (dated \<and> p_id p \<in> E)) (p # ps))"
      using ids success(1) analyze_single_r_id [OF success(2)] unfolding f(3) by simp
    ultimately show ?thesis unfolding batch_loop_Cons by blast
  next
    case (failure n)
    have f: "results ?st1 = results st" "store ?st1 = store st"
      "fail_count ?st1 = fail_count st + 1"
      by (simp_all add: failure(3))
    have "results ?st' = results st @ new1" using res f(1) by simp
    moreover have "load_existing_results (store ?st') =
        (if dated then stored_after (load_existing_results (store st)) new1
         else load_existing_results (store st))"
      using sto unfolding f(2) .
    moreover have "new1 = [] \<longrightarrow> store ?st' = store st" using emp unfolding f(2) .
    moreover have "fail_count ?st' \<noteq> fail_count st" using mono unfolding f(3) by simp
    ultimately show ?thesis unfolding batch_loop_Cons by blast
  qed
qed

lemma batch_loop_all_skipped:
  "dated \<Longrightarrow> \<forall>p \<in> set ps. p_id p \<in> E \<Longrightarrow>
     batch_loop dg self dated E st ps = st\<lparr>skip_count := skip_count st + length ps\<rparr>"
proof (induction ps arbitrary: st)
  case Nil
  then show ?case by (simp add: batch_loop_Nil)
next
  case (Cons p ps)
  then show ?case by (simp add: batch_loop_Cons batch_step_skip)
qed


section \<open>The batch\<close>

lemma final_analyze_batch:
  "final (analyze_batch dg self papers date silent f n) =
     batch_loop dg self (date_given date)
       (if date_given date then set (map extract_paper_id_from_result (load_existing_results f))
        else {})
       (initial_state f n) papers"
  by (simp add: analyze_batch_def Let_def batch_loop_Nil)

lemma returned_analyze_batch_silent:
  "papers \<noteq> [] \<Longrightarrow>
     returned (analyze_batch dg self papers date True f n) = Inl UnboundLocalError"
  by (simp add: analyze_batch_def Let_def)

lemma returned_analyze_batch_not_silent:
  "returned (analyze_batch dg self papers date False f n) =
     Inr (results (final (analyze_batch dg self papers date False f n)))"
  by (simp add: analyze_batch_def Let_def initial_state_def)

lemma initial_state_simps:
  "store (initial_state f n) = f" "calls (initial_state f n) = n"
  "results (initial_state f n) = []" "processed_count (initial_state f n) = 0"
  "success_count (initial_state f n) = 0" "fail_count (initial_state f n) = 0"
  "skip_count (initial_state f n) = 0"
  by (simp_all add: initial_state_def)

text \<open>
  C10: the ids used for skipping are those of the file at the start of the batch, whatever
  is saved during the batch: the papers skipped are exactly those whose id is in the file
  at the start, and every other paper is analysed, with a result or a failure. For every id
  that got a result in the batch, the file holds in the end exactly one entry with that
  id, that of the last result with this id. In particular two papers with one id that is
  not in the file at the start are both analysed, and when both give a result the file
  holds the second result alone for this id.
\<close>

theorem C10_existing_ids_fixed:
  assumes "date_given date"
  shows
  "let out = final (analyze_batch dg self papers date silent f n);
       E0 = set (map extract_paper_id_from_result (load_existing_results f))
   in skip_count out = length (filter (\<lambda>p. p_id p \<in> E0) papers) \<and>
      processed_count out = length (filter (\<lambda>p. p_id p \<notin> E0) papers) \<and>
      success_count out + fail_count out = processed_count out \<and>
      length (results out) = success_count out \<and>
      (\<forall>i. (\<exists>r \<in> set (results out). r_id r = i) \<longrightarrow>
         filter (\<lambda>e. extract_paper_id_from_result e = i) (load_existing_results (store out)) =
           [to_dict (last (filter (\<lambda>r. r_id r = i) (results out)))]) \<and>
      (\<forall>p1 p2 r1 r2.
         papers = [p1, p2] \<and> p_id p1 = p_id p2 \<and> p_id p1 \<notin> E0 \<and> results out = [r1, r2] \<longrightarrow>
           skip_count out = 0 \<and> processed_count out = 2 \<and>
           filter (\<lambda>e. extract_paper_id_from_result e = p_id p1)
             (load_existing_results (store out)) = [to_dict r2])"
proof -
  define E0 where "E0 = set (map extract_paper_id_from_result (load_existing_results f))"
  define out where "out = final (analyze_batch dg self papers date silent f n)"
  have out: "out = batch_loop dg self True E0 (initial_state f n) papers"
    using assms by (simp add: out_def E0_def final_analyze_batch)
  have skip: "skip_count out = length (filter (\<lambda>p. p_id p \<in> E0) papers)"
    by (simp add: out skip_count_batch_loop initial_state_simps)
  have proc: "processed_count out = length (filter (\<lambda>p. p_id p \<notin> E0) papers)"
    by (simp add: out processed_count_batch_loop initial_state_simps)
  have sf: "success_count out + fail_count out = processed_count out"
    using success_fail_batch_loop [of dg self True E0 "initial_state f n" papers]
    by (simp add: out processed_count_batch_loop initial_state_simps)
  have len: "length (results out) = success_count out"
    using length_results_batch_loop [of dg self True E0 "initial_state f n" papers]
    by (simp add: out initial_state_simps)
  from batch_loop_results [of dg self True E0 "initial_state f n" papers]
  obtain new where
    new: "results out = new" and
    sto: "load_existing_results (store out) = stored_after (load_existing_results f) new" and
    ids: "fail_count out = 0 \<longrightarrow> map r_id new = map p_id (filter (\<lambda>p. p_id p \<notin> E0) papers)"
    by (auto simp: out initial_state_simps)
  have one: "filter (\<lambda>e. extract_paper_id_from_result e = i) (load_existing_results (store out)) =
               [to_dict (last (filter (\<lambda>r. r_id r = i) (results out)))]"
    if "\<exists>r \<in> set (results out). r_id r = i" for i
    using that by (simp add: sto new [symmetric] entries_of_id_stored_after)
  have two: "skip_count out = 0 \<and> processed_count out = 2 \<and>
             filter (\<lambda>e. extract_paper_id_from_result e = p_id p1)
               (load_existing_results (store out)) = [to_dict r2]"
    if h: "papers = [p1, p2] \<and> p_id p1 = p_id p2 \<and> p_id p1 \<notin> E0 \<and> results out = [r1, r2]"
    for p1 p2 r1 r2
  proof -
    from h have h1: "papers = [p1, p2]" and h2: "p_id p1 = p_id p2"
      and h3: "p_id p1 \<notin> E0" and h4: "results out = [r1, r2]"
      by blast+
    from h2 h3 have h5: "p_id p2 \<notin> E0" by simp
    have s0: "skip_count out = 0" using skip h1 h3 h5 by simp
    have p2: "processed_count out = 2" using proc h1 h3 h5 by simp
    have "success_count out = 2" using len h4 by simp
    with sf p2 have "fail_count out = 0" by simp
    with ids new h1 h3 h4 h5 have "map r_id [r1, r2] = map p_id [p1, p2]" by simp
    then have r2: "r_id r2 = p_id p1" using h2 by simp
    then have "\<exists>r \<in> set (results out). r_id r = p_id p1" using h4 by auto
    from one [OF this] have
      "filter (\<lambda>e. extract_paper_id_from_result e = p_id p1) (load_existing_results (store out)) =
         [to_dict (last (filter (\<lambda>r. r_id r = p_id p1) [r1, r2]))]"
      using h4 by simp
    also have "last (filter (\<lambda>r. r_id r = p_id p1) [r1, r2]) = r2" using r2 by simp
    finally show ?thesis using s0 p2 by simp
  qed
  show ?thesis
    unfolding Let_def E0_def [symmetric] out_def [symmetric]
    using skip proc sf len one two by blast
qed


lemma date_given_demo_date: "date_given demo_date"
  by (simp add: date_given_def demo_date_def of_ascii_def)

lemma p_id_revised_paper: "p_id revised_paper = p_id demo_paper"
  by (simp add: revised_paper_def)

lemma results_two_runs_rules_only:
  "results (final (analyze_batch ascii_digit rules_only [demo_paper, revised_paper] demo_date
      silent NoFile 0)) =
     [basic_result ascii_digit demo_paper, basic_result ascii_digit revised_paper]"
  by (simp add: final_analyze_batch batch_loop_def batch_step_def date_given_demo_date
        load_existing_results_def initial_state_def analyze_single_def rules_only_def)

theorem C10_existing_ids_fixed_witness:
  "date_given demo_date \<and>
   skip_count (final (analyze_batch ascii_digit rules_only [demo_paper, revised_paper] demo_date
      False NoFile 0)) = 0 \<and>
   processed_count (final (analyze_batch ascii_digit rules_only [demo_paper, revised_paper]
      demo_date False NoFile 0)) = 2 \<and>
   filter (\<lambda>e. extract_paper_id_from_result e = p_id demo_paper)
     (load_existing_results (store (final (analyze_batch ascii_digit rules_only
        [demo_paper, revised_paper] demo_date False NoFile 0)))) =
     [to_dict (basic_result ascii_digit revised_paper)]"
proof -
  let ?out = "final (analyze_batch ascii_digit rules_only [demo_paper, revised_paper] demo_date
      False NoFile 0)"
  have h: "[demo_paper, revised_paper] = [demo_paper, revised_paper] \<and>
           p_id demo_paper = p_id revised_paper \<and>
           p_id demo_paper \<notin> set (map extract_paper_id_from_result (load_existing_results NoFile)) \<and>
           results ?out = [basic_result ascii_digit demo_paper, basic_result ascii_digit revised_paper]"
    by (simp add: p_id_revised_paper results_two_runs_rules_only load_existing_results_def)
  from C10_existing_ids_fixed [OF date_given_demo_date, of ascii_digit rules_only
         "[demo_paper, revised_paper]" False NoFile 0]
  have "\<forall>p1 p2 r1 r2.
         [demo_paper, revised_paper] = [p1, p2] \<and> p_id p1 = p_id p2 \<and>
         p_id p1 \<notin> set (map extract_paper_id_from_result (load_existing_results NoFile)) \<and>
         results ?out = [r1, r2] \<longrightarrow>
           skip_count ?out = 0 \<and> processed_count ?out = 2 \<and>
           filter (\<lambda>e. extract_paper_id_from_result e = p_id p1)
             (load_existing_results (store ?out)) = [to_dict r2]"
    unfolding Let_def by (elim conjE)
  from this [rule_format, OF h] date_given_demo_date show ?thesis by simp
qed


lemma extract_paper_id_other_entry:
  "extract_paper_id_from_result other_entry = of_ascii ''2507.99999''"
  by (simp add: extract_paper_id_from_result_def other_entry_def of_ascii_def)

lemma fail_count_first_run: "fail_count (final first_run) = 0"
  by (simp add: first_run_def final_analyze_batch batch_loop_def batch_step_def
        date_given_demo_date initial_state_def analyze_single_def rules_only_def)


text \<open>
  The ids of the new results are ids of papers that were not skipped, and they are distinct
  when the ids of the papers are.
\<close>

lemma batch_loop_result_ids:
  "\<exists>new. results (batch_loop dg self dated E st ps) = results st @ new \<and>
     r_id ` set new \<subseteq> p_id ` {p \<in> set ps. \<not> (dated \<and> p_id p \<in> E)} \<and>
     (distinct (map p_id ps) \<longrightarrow> distinct (map r_id new))"
proof (induction ps arbitrary: st)
  case Nil
  show ?case by (simp add: batch_loop_Nil)
next
  case (Cons p ps)
  let ?st1 = "batch_step dg self dated E st p"
  let ?st' = "batch_loop dg self dated E ?st1 ps"
  from Cons.IH [of ?st1] obtain new1 where
    res: "results ?st' = results ?st1 @ new1" and
    sub: "r_id ` set new1 \<subseteq> p_id ` {p \<in> set ps. \<not> (dated \<and> p_id p \<in> E)}" and
    dis: "distinct (map p_id ps) \<longrightarrow> distinct (map r_id new1)"
    by blast
  have sub': "r_id ` set new1 \<subseteq> p_id ` {q \<in> set (p # ps). \<not> (dated \<and> p_id q \<in> E)}"
    using sub by auto
  have dis': "distinct (map p_id (p # ps)) \<longrightarrow> distinct (map r_id new1)"
    using dis by simp
  show ?case
  proof (cases rule: batch_step_cases [of dated p E dg self st])
    case skip
    have "results ?st1 = results st" by (simp add: skip(3))
    with res have "results ?st' = results st @ new1" by simp
    with sub' dis' show ?thesis unfolding batch_loop_Cons by blast
  next
    case (success r n)
    have "results ?st1 = results st @ [r]" by (simp add: success(3))
    with res have r1: "results ?st' = results st @ (r # new1)" by simp
    have id: "r_id r = p_id p" using success(2) by (rule analyze_single_r_id)
    have "p \<in> {q \<in> set (p # ps). \<not> (dated \<and> p_id q \<in> E)}" using success(1) by simp
    then have "p_id p \<in> p_id ` {q \<in> set (p # ps). \<not> (dated \<and> p_id q \<in> E)}"
      by (rule imageI)
    with sub' id have r2: "r_id ` set (r # new1) \<subseteq>
        p_id ` {q \<in> set (p # ps). \<not> (dated \<and> p_id q \<in> E)}"
      by simp
    have r3: "distinct (map p_id (p # ps)) \<longrightarrow> distinct (map r_id (r # new1))"
    proof
      assume d: "distinct (map p_id (p # ps))"
      then have "p_id p \<notin> p_id ` set ps" by simp
      moreover have "p_id ` {q \<in> set ps. \<not> (dated \<and> p_id q \<in> E)} \<subseteq> p_id ` set ps"
        by blast
      ultimately have "r_id r \<notin> r_id ` set new1" using sub id by auto
      with d dis show "distinct (map r_id (r # new1))" by simp
    qed
    from r1 r2 r3 show ?thesis unfolding batch_loop_Cons by blast
  next
    case (failure n)
    have "results ?st1 = results st" by (simp add: failure(3))
    with res have "results ?st' = results st @ new1" by simp
    with sub' dis' show ?thesis unfolding batch_loop_Cons by blast
  qed
qed

lemma stored_after_append:
  "stored_after es (rs @ rs') = stored_after (stored_after es rs) rs'"
  by (simp add: stored_after_def)

text \<open>A save of a new id leaves the entries already in the file where they are.\<close>

lemma stored_after_keeps:
  assumes "\<forall>e \<in> set es. extract_paper_id_from_result e \<notin> r_id ` set rs"
  shows "stored_after es rs = es @ stored_after [] rs"
  using assms
proof (induction rs rule: rev_induct)
  case Nil
  show ?case by (simp add: stored_after_Nil)
next
  case (snoc r rs)
  have IH: "stored_after es rs = es @ stored_after [] rs" using snoc by auto
  have "\<forall>e \<in> set es. extract_paper_id_from_result e \<noteq> r_id r"
    using snoc.prems by auto
  then have "filter (\<lambda>e. extract_paper_id_from_result e \<noteq> r_id r) es = es"
    by (simp add: filter_id_conv)
  then show ?case by (simp add: stored_after_snoc IH)
qed

lemma ids_stored_after:
  "extract_paper_id_from_result ` set (stored_after es rs) =
     extract_paper_id_from_result ` set es \<union> r_id ` set rs"
proof (induction rs rule: rev_induct)
  case Nil
  show ?case by (simp add: stored_after_Nil)
next
  case (snoc r rs)
  have "extract_paper_id_from_result `
          set (filter (\<lambda>e. extract_paper_id_from_result e \<noteq> r_id r) (stored_after es rs)) \<union>
        {r_id r} =
        extract_paper_id_from_result ` set (stored_after es rs) \<union> {r_id r}"
    by auto
  then show ?case
    using snoc.IH by (simp add: stored_after_snoc extract_paper_id_to_dict)
qed


text \<open>One run with a date, from the file \<open>g\<close>: what it leaves.\<close>

lemma dated_run:
  assumes "date_given date"
  shows "load_existing_results (store (final (analyze_batch dg self papers date
        silent g m))) = stored_after (load_existing_results g) (results (final (analyze_batch dg self papers date
        silent g m)))"
    and "r_id ` set (results (final (analyze_batch dg self papers date
        silent g m))) \<subseteq> p_id ` set papers - (set (map extract_paper_id_from_result
        (load_existing_results g)))"
    and "distinct (map p_id papers) \<longrightarrow> distinct (map r_id (results (final (analyze_batch dg self papers date
        silent g m))))"
    and "fail_count (final (analyze_batch dg self papers date silent g m)) = 0 \<longrightarrow>
           map r_id (results (final (analyze_batch dg self papers date
        silent g m))) = map p_id (filter (\<lambda>p. p_id p \<notin> (set (map extract_paper_id_from_result
        (load_existing_results g)))) papers)"
    and "skip_count (final (analyze_batch dg self papers date
        silent g m)) = length (filter (\<lambda>p. p_id p \<in> (set (map extract_paper_id_from_result
        (load_existing_results g)))) papers)"
    and "length (results (final (analyze_batch dg self papers date
        silent g m))) = success_count (final (analyze_batch dg self papers date
        silent g m))"
    and "success_count (final (analyze_batch dg self papers date
        silent g m)) + fail_count (final (analyze_batch dg self papers date
        silent g m)) = length (filter (\<lambda>p. p_id p \<notin> (set (map extract_paper_id_from_result
        (load_existing_results g)))) papers)"
proof -
  define st where "st = final (analyze_batch dg self papers date silent g m)"
  define E where "E = set (map extract_paper_id_from_result (load_existing_results g))"
  have st: "st = batch_loop dg self True E (initial_state g m) papers"
    using assms(1) by (simp add: st_def E_def final_analyze_batch)
  from batch_loop_results [of dg self True E "initial_state g m" papers]
  obtain new where
    new: "results st = new" and
    sto: "load_existing_results (store st) = stored_after (load_existing_results g) new" and
    ids: "fail_count st = 0 \<longrightarrow> map r_id new = map p_id (filter (\<lambda>p. p_id p \<notin> E) papers)"
    by (auto simp: st initial_state_simps)
  have s1: "load_existing_results (store st) = stored_after (load_existing_results g) (results st)"
    using sto new by simp
  have s2: "fail_count st = 0 \<longrightarrow>
           map r_id (results st) = map p_id (filter (\<lambda>p. p_id p \<notin> E) papers)"
    using ids new by simp
  from batch_loop_result_ids [of dg self True E "initial_state g m" papers]
  obtain new' where
    new': "results st = new'" and
    sub: "r_id ` set new' \<subseteq> p_id ` {p \<in> set papers. p_id p \<notin> E}" and
    dis: "distinct (map p_id papers) \<longrightarrow> distinct (map r_id new')"
    by (auto simp: st initial_state_simps)
  have s3: "r_id ` set (results st) \<subseteq> p_id ` set papers - E"
    using sub unfolding new' by auto
  have s4: "distinct (map p_id papers) \<longrightarrow> distinct (map r_id (results st))"
    using dis new' by simp
  have s5: "skip_count st = length (filter (\<lambda>p. p_id p \<in> E) papers)"
    by (simp add: st skip_count_batch_loop initial_state_simps)
  have s6: "length (results st) = success_count st"
    using length_results_batch_loop [of dg self True E "initial_state g m" papers]
    by (simp add: st initial_state_simps)
  have s7: "success_count st + fail_count st = length (filter (\<lambda>p. p_id p \<notin> E) papers)"
    using success_fail_batch_loop [of dg self True E "initial_state g m" papers]
    by (simp add: st initial_state_simps)
  show "load_existing_results (store (final (analyze_batch dg self papers date silent g m))) =
      stored_after (load_existing_results g) (results (final (analyze_batch dg self papers date
        silent g m)))"
    and "r_id ` set (results (final (analyze_batch dg self papers date
        silent g m))) \<subseteq> p_id ` set papers - (set (map extract_paper_id_from_result
        (load_existing_results g)))"
    and "distinct (map p_id papers) \<longrightarrow> distinct (map r_id (results (final (analyze_batch dg self papers date
        silent g m))))"
    and "fail_count (final (analyze_batch dg self papers date silent g m)) = 0 \<longrightarrow>
           map r_id (results (final (analyze_batch dg self papers date
        silent g m))) = map p_id (filter (\<lambda>p. p_id p \<notin> (set (map extract_paper_id_from_result
        (load_existing_results g)))) papers)"
    and "skip_count (final (analyze_batch dg self papers date
        silent g m)) = length (filter (\<lambda>p. p_id p \<in> (set (map extract_paper_id_from_result
        (load_existing_results g)))) papers)"
    and "length (results (final (analyze_batch dg self papers date
        silent g m))) = success_count (final (analyze_batch dg self papers date
        silent g m))"
    and "success_count (final (analyze_batch dg self papers date
        silent g m)) + fail_count (final (analyze_batch dg self papers date
        silent g m)) = length (filter (\<lambda>p. p_id p \<notin> (set (map extract_paper_id_from_result
        (load_existing_results g)))) papers)"
    using s1 s3 s4 s2 s5 s6 s7 unfolding st_def E_def by blast+
qed

lemma undated_run:
  assumes "\<not> date_given date"
  shows "store (final (analyze_batch dg self papers date silent g m)) = g"
proof -
  have "final (analyze_batch dg self papers date silent g m) =
          batch_loop dg self False {} (initial_state g m) papers"
    using assms by (simp add: final_analyze_batch)
  moreover have "store (batch_loop dg self False {} st ps) = store st" for st ps
  proof (induction ps arbitrary: st)
    case Nil
    show ?case by (simp add: batch_loop_Nil)
  next
    case (Cons p ps)
    show ?case
      using Cons.IH [of "batch_step dg self False {} st p"]
      by (cases rule: batch_step_cases [of False p "{}" dg self st])
         (simp_all add: batch_loop_Cons)
  qed
  ultimately show ?thesis by (simp add: initial_state_simps)
qed

text \<open>
  No run removes or moves an entry that the file had at its start: the file after the run
  is the file before it, followed by the entries of the new results.
\<close>

lemma run_keeps_entries:
  "load_existing_results (store (final (analyze_batch dg self papers date silent g m))) =
     load_existing_results g @
     (if date_given date
      then stored_after [] (results (final (analyze_batch dg self papers date silent g m)))
      else [])"
proof (cases "date_given date")
  case True
  let ?st = "final (analyze_batch dg self papers date silent g m)"
  let ?E = "set (map extract_paper_id_from_result (load_existing_results g))"
  have "\<forall>e \<in> set (load_existing_results g).
          extract_paper_id_from_result e \<notin> r_id ` set (results ?st)"
    using dated_run(2) [OF True, of dg self papers silent g m] by auto
  then have "stored_after (load_existing_results g) (results ?st) =
      load_existing_results g @ stored_after [] (results ?st)"
    by (rule stored_after_keeps)
  with dated_run(1) [OF True, of dg self papers silent g m] True show ?thesis by simp
next
  case False
  then show ?thesis by (simp add: undated_run)
qed


lemma length_filter_disj:
  "\<forall>x \<in> set xs. \<not> (P x \<and> Q x) \<Longrightarrow>
     length (filter (\<lambda>x. P x \<or> Q x) xs) = length (filter P xs) + length (filter Q xs)"
  by (induction xs) auto

lemma length_filter_distinct_ids:
  assumes "distinct (map f xs)" "A \<subseteq> f ` set xs"
  shows "length (filter (\<lambda>x. f x \<in> A) xs) = card A"
proof -
  have "length (filter (\<lambda>x. f x \<in> A) xs) = length (filter (\<lambda>i. i \<in> A) (map f xs))"
    by (simp add: filter_map comp_def)
  also have "\<dots> = card ({i. i \<in> A} \<inter> set (map f xs))"
    using assms(1) by (rule distinct_length_filter)
  also have "{i. i \<in> A} \<inter> set (map f xs) = A" using assms(2) by auto
  finally show ?thesis .
qed

text \<open>
  C1, amended. For two runs of \<open>analyze_batch\<close> with the same papers and date, the second
  from the file and the call count the first one left, in either mode:
  no run overwrites, removes or moves an entry the file already has: the file after a run
  is the file before it followed by new entries. When the date is given: the first run
  skips exactly the papers whose id is in the file at the start, and the second run skips
  exactly the papers whose id was in the file at the start or got a result in the
  first run; for each id that got a result in one of the runs the file holds exactly one
  entry, and its size is its size at the start plus the number of these ids; the second
  run's skipped count is the first run's skipped count plus its succeeded count when no
  analysis failed in the first run or the papers have distinct ids; when no analysis
  fails in the second run, the file holds exactly one entry for each distinct paper id
  that was not in it at the start, and its size is its size at the start plus the number
  of these ids; when no analysis failed in the first run, the second run leaves the file
  as it was, calls the assistant no more and produces no result.
\<close>

theorem C1_two_runs:
  assumes "o1 = analyze_batch dg self papers date silent1 f n"
    and "o2 = analyze_batch dg self papers date silent2 (store (final o1)) (calls (final o1))"
  shows
  "(\<exists>new. load_existing_results (store (final o1)) = load_existing_results f @ new) \<and>
   (\<exists>new. load_existing_results (store (final o2)) =
           load_existing_results (store (final o1)) @ new) \<and>
   (date_given date \<longrightarrow>
      skip_count (final o1) =
        length (filter (\<lambda>p. p_id p \<in> set (map extract_paper_id_from_result (load_existing_results f)))
                  papers) \<and>
      skip_count (final o2) =
        length (filter (\<lambda>p. p_id p \<in> set (map extract_paper_id_from_result (load_existing_results f))
                              \<union> r_id ` set (results (final o1))) papers) \<and>
      length (load_existing_results (store (final o2))) =
        length (load_existing_results f) +
        card (r_id ` (set (results (final o1)) \<union> set (results (final o2)))) \<and>
      (\<forall>i \<in> r_id ` (set (results (final o1)) \<union> set (results (final o2))).
         length (filter (\<lambda>e. extract_paper_id_from_result e = i)
                   (load_existing_results (store (final o2)))) = 1)) \<and>
   (date_given date \<and> (fail_count (final o1) = 0 \<or> distinct (map p_id papers)) \<longrightarrow>
      skip_count (final o2) = skip_count (final o1) + success_count (final o1)) \<and>
   (date_given date \<and> fail_count (final o2) = 0 \<longrightarrow>
      (\<forall>i \<in> p_id ` set papers -
              set (map extract_paper_id_from_result (load_existing_results f)).
         length (filter (\<lambda>e. extract_paper_id_from_result e = i)
                   (load_existing_results (store (final o2)))) = 1) \<and>
      length (load_existing_results (store (final o2))) =
        length (load_existing_results f) +
        card (p_id ` set papers -
              set (map extract_paper_id_from_result (load_existing_results f)))) \<and>
   (date_given date \<and> fail_count (final o1) = 0 \<longrightarrow>
      store (final o2) = store (final o1) \<and> calls (final o2) = calls (final o1) \<and>
      results (final o2) = [])"
proof -
  define st1 where "st1 = final o1"
  define st2 where "st2 = final o2"
  define E0 where "E0 = set (map extract_paper_id_from_result (load_existing_results f))"
  define E2 where "E2 = set (map extract_paper_id_from_result (load_existing_results (store st1)))"
  define R1 where "R1 = r_id ` set (results st1)"
  define R2 where "R2 = r_id ` set (results st2)"
  have k1: "\<exists>new. load_existing_results (store st1) = load_existing_results f @ new"
    unfolding st1_def assms(1) using run_keeps_entries [of dg self papers date silent1 f n]
    by blast
  have k2: "\<exists>new. load_existing_results (store st2) = load_existing_results (store st1) @ new"
    unfolding st2_def assms(2) st1_def
    using run_keeps_entries [of dg self papers date silent2 "store (final o1)" "calls (final o1)"]
    by blast
  have dated: "skip_count st1 = length (filter (\<lambda>p. p_id p \<in> E0) papers) \<and>
      skip_count st2 = length (filter (\<lambda>p. p_id p \<in> E0 \<union> R1) papers) \<and>
      length (load_existing_results (store st2)) =
        length (load_existing_results f) + card (r_id ` (set (results st1) \<union> set (results st2))) \<and>
      (\<forall>i \<in> r_id ` (set (results st1) \<union> set (results st2)).
         length (filter (\<lambda>e. extract_paper_id_from_result e = i)
                   (load_existing_results (store st2))) = 1) \<and>
      ((fail_count st1 = 0 \<or> distinct (map p_id papers)) \<longrightarrow>
         skip_count st2 = skip_count st1 + success_count st1) \<and>
      (fail_count st2 = 0 \<longrightarrow> R1 \<union> R2 = p_id ` set papers - E0) \<and>
      (fail_count st1 = 0 \<longrightarrow>
         store st2 = store st1 \<and> calls st2 = calls st1 \<and> results st2 = [])"
    if d: "date_given date"
  proof -
    note r1 = dated_run [where dg = dg and self = self and papers = papers and date = date
        and silent = silent1 and g = f and m = n, OF d,
        folded assms(1), folded st1_def E0_def]
    note r2 = dated_run [where dg = dg and self = self and papers = papers and date = date
        and silent = silent2 and g = "store (final o1)" and m = "calls (final o1)", OF d,
        folded assms(2), folded st1_def, folded st2_def E2_def]
    have sub1: "R1 \<subseteq> p_id ` set papers - E0" using r1(2) by (simp add: R1_def)
    have sub2: "R2 \<subseteq> p_id ` set papers - E2" using r2(2) by (simp add: R2_def)
    have E2: "E2 = E0 \<union> R1"
      unfolding E2_def r1(1) E0_def R1_def by (simp add: ids_stored_after)
    have skip2: "skip_count st2 = length (filter (\<lambda>p. p_id p \<in> E0 \<union> R1) papers)"
      using r2(5) by (simp add: E2)
    have sto: "load_existing_results (store st2) =
        stored_after (load_existing_results f) (results st1 @ results st2)"
      by (simp add: r2(1) r1(1) stored_after_append)
    have dis: "\<forall>e \<in> set (load_existing_results f).
        extract_paper_id_from_result e \<notin> r_id ` set (results st1 @ results st2)"
      using sub1 sub2 unfolding E2 R1_def R2_def E0_def by auto
    have size: "length (load_existing_results (store st2)) =
        length (load_existing_results f) + card (r_id ` (set (results st1) \<union> set (results st2)))"
      using length_stored_after [OF dis] by (simp add: sto)
    have one: "\<forall>i \<in> r_id ` (set (results st1) \<union> set (results st2)).
         length (filter (\<lambda>e. extract_paper_id_from_result e = i)
                   (load_existing_results (store st2))) = 1"
    proof
      fix i assume "i \<in> r_id ` (set (results st1) \<union> set (results st2))"
      then have "\<exists>r \<in> set (results st1 @ results st2). r_id r = i" by auto
      then show "length (filter (\<lambda>e. extract_paper_id_from_result e = i)
                   (load_existing_results (store st2))) = 1"
        by (simp add: sto entries_of_id_stored_after)
    qed
    have split: "skip_count st2 = skip_count st1 + length (filter (\<lambda>p. p_id p \<in> R1) papers)"
    proof -
      have "\<forall>p \<in> set papers. \<not> (p_id p \<in> E0 \<and> p_id p \<in> R1)" using sub1 by auto
      from length_filter_disj [OF this]
      have "length (filter (\<lambda>p. p_id p \<in> E0 \<or> p_id p \<in> R1) papers) =
          length (filter (\<lambda>p. p_id p \<in> E0) papers) + length (filter (\<lambda>p. p_id p \<in> R1) papers)" .
      then show ?thesis using skip2 r1(5) by simp
    qed
    have sk: "skip_count st2 = skip_count st1 + success_count st1"
      if c: "fail_count st1 = 0 \<or> distinct (map p_id papers)"
    proof -
      have "length (filter (\<lambda>p. p_id p \<in> R1) papers) = success_count st1"
        using c
      proof
        assume f0: "fail_count st1 = 0"
        with r1(4) have m: "map r_id (results st1) = map p_id (filter (\<lambda>p. p_id p \<notin> E0) papers)"
          by simp
        have "R1 = p_id ` set (filter (\<lambda>p. p_id p \<notin> E0) papers)"
          unfolding R1_def using m by (metis list.set_map)
        then have "\<forall>p \<in> set papers. (p_id p \<in> R1) = (p_id p \<notin> E0)"
          using sub1 by auto
        then have "filter (\<lambda>p. p_id p \<in> R1) papers = filter (\<lambda>p. p_id p \<notin> E0) papers"
          by (auto intro: filter_cong)
        then show ?thesis using r1(7) f0 by simp
      next
        assume dp: "distinct (map p_id papers)"
        have "R1 \<subseteq> p_id ` set papers" using sub1 by blast
        with dp have "length (filter (\<lambda>p. p_id p \<in> R1) papers) = card R1"
          by (rule length_filter_distinct_ids)
        also have "card R1 = length (map r_id (results st1))"
          using dp r1(3) unfolding R1_def by (metis distinct_card list.set_map)
        finally show ?thesis using r1(6) by simp
      qed
      with split show ?thesis by simp
    qed
    have all: "R1 \<union> R2 = p_id ` set papers - E0" if f2: "fail_count st2 = 0"
    proof -
      from r2(4) f2 have "map r_id (results st2) = map p_id (filter (\<lambda>p. p_id p \<notin> E2) papers)"
        by simp
      then have "R2 = p_id ` set (filter (\<lambda>p. p_id p \<notin> E2) papers)"
        unfolding R2_def by (metis list.set_map)
      then have "R2 = p_id ` set papers - E2" by auto
      with sub1 show ?thesis unfolding E2 by auto
    qed
    have same: "store st2 = store st1 \<and> calls st2 = calls st1 \<and> results st2 = []"
      if f0: "fail_count st1 = 0"
    proof -
      from r1(4) f0 have "map r_id (results st1) = map p_id (filter (\<lambda>p. p_id p \<notin> E0) papers)"
        by simp
      then have "R1 = p_id ` set (filter (\<lambda>p. p_id p \<notin> E0) papers)"
        unfolding R1_def by (metis list.set_map)
      then have all_in: "\<forall>p \<in> set papers. p_id p \<in> E2" unfolding E2 by auto
      have "st2 = batch_loop dg self True E2 (initial_state (store st1) (calls st1)) papers"
        unfolding st2_def assms(2) E2_def st1_def final_analyze_batch
        by (simp only: d if_True)
      also have "\<dots> = (initial_state (store st1) (calls st1))
          \<lparr>skip_count := skip_count (initial_state (store st1) (calls st1)) + length papers\<rparr>"
        using all_in by (intro batch_loop_all_skipped) simp_all
      finally show ?thesis by (simp add: initial_state_simps)
    qed
    from r1(5) skip2 size one sk all same show ?thesis by blast
  qed
  have last: "(\<forall>i \<in> p_id ` set papers - E0.
         length (filter (\<lambda>e. extract_paper_id_from_result e = i)
                   (load_existing_results (store st2))) = 1) \<and>
      length (load_existing_results (store st2)) =
        length (load_existing_results f) + card (p_id ` set papers - E0)"
    if h: "date_given date \<and> fail_count st2 = 0"
  proof -
    from h dated have u: "R1 \<union> R2 = p_id ` set papers - E0" by blast
    have img: "r_id ` (set (results st1) \<union> set (results st2)) = R1 \<union> R2"
      unfolding R1_def R2_def by (rule image_Un)
    from h dated show ?thesis unfolding img u by blast
  qed
  show ?thesis
    using k1 k2 dated last
    unfolding st1_def st2_def E0_def R1_def
    by blast
qed


lemma r_id_basic_result: "r_id (basic_result dg p) = p_id p"
  by (simp add: basic_result_def)

lemma r_id_result_of_response: "r_id (result_of_response dg p response) = p_id p"
  by (simp add: result_of_response_def Let_def)

lemma labelled_reply_not_Nil: "labelled_reply \<noteq> []"
  by (simp add: labelled_reply_def label_title_zh_def)

lemma final_failing_first_run:
  "final failing_first_run =
     \<lparr>store = NoFile, calls = 3, results = [], processed_count = 1, success_count = 0,
      fail_count = 1, skip_count = 0\<rparr>"
  by (simp add: failing_first_run_def final_analyze_batch batch_loop_def batch_step_def
        date_given_demo_date load_existing_results_def initial_state_def analyze_single_def
        assisted_def retry_failing)

lemma final_failing_second_run:
  "final failing_second_run =
     \<lparr>store = NoFile, calls = 6, results = [], processed_count = 1, success_count = 0,
      fail_count = 1, skip_count = 0\<rparr>"
  by (simp add: failing_second_run_def final_failing_first_run final_analyze_batch batch_loop_def
        batch_step_def date_given_demo_date load_existing_results_def initial_state_def
        analyze_single_def assisted_def retry_failing)

lemma final_stored_first_run:
  "final stored_first_run =
     \<lparr>store = Records [to_dict (basic_result ascii_digit demo_paper)], calls = 0, results = [],
      processed_count = 0, success_count = 0, fail_count = 0, skip_count = 1\<rparr>"
  by (simp add: stored_first_run_def final_analyze_batch batch_loop_def batch_step_def
        date_given_demo_date load_existing_results_def initial_state_def
        extract_paper_id_to_dict r_id_basic_result)

lemma final_stored_second_run:
  "final stored_second_run =
     \<lparr>store = Records [to_dict (basic_result ascii_digit demo_paper)], calls = 0, results = [],
      processed_count = 0, success_count = 0, fail_count = 0, skip_count = 1\<rparr>"
  by (simp add: stored_second_run_def final_stored_first_run final_analyze_batch batch_loop_def
        batch_step_def date_given_demo_date load_existing_results_def initial_state_def
        extract_paper_id_to_dict r_id_basic_result)

lemma retry_once_first:
  "retry_loop once_client p 3 0 = (Some labelled_reply, 1)"
  by (simp add: once_client_def numeral_3_eq_3 labelled_reply_not_Nil)

lemma retry_once_later:
  "retry_loop once_client p 3 (Suc n) = (None, Suc n + 3)"
  by (simp add: once_client_def numeral_3_eq_3)

lemma final_partial_first_run:
  "final partial_first_run =
     \<lparr>store = Records [to_dict (result_of_response ascii_digit demo_paper labelled_reply)],
      calls = 4, results = [result_of_response ascii_digit demo_paper labelled_reply],
      processed_count = 2, success_count = 1, fail_count = 1, skip_count = 0\<rparr>"
  using retry_once_later [of revised_paper 0]
  by (simp add: partial_first_run_def final_analyze_batch batch_loop_def batch_step_def
        date_given_demo_date load_existing_results_def initial_state_def analyze_single_def
        assisted_def retry_once_first save_single_result_def)

lemma final_partial_second_run:
  "final partial_second_run =
     \<lparr>store = Records [to_dict (result_of_response ascii_digit demo_paper labelled_reply)],
      calls = 4, results = [],
      processed_count = 0, success_count = 0, fail_count = 0, skip_count = 2\<rparr>"
  by (simp add: partial_second_run_def final_partial_first_run final_analyze_batch batch_loop_def
        batch_step_def date_given_demo_date load_existing_results_def initial_state_def
        extract_paper_id_to_dict r_id_result_of_response p_id_revised_paper)

text \<open>
  C1, as stated, fails, each clause but the last at an input of its own. When the assistant
  fails on the paper, nothing is stored, and after two runs the file of the date has no
  entry although there is one distinct paper. When the file holds the paper's result at
  the start, the first run succeeds on nothing and the second skips one paper. When two
  papers have one id and the analysis of the first succeeds and that of the second fails,
  the first run succeeds once and the second run skips both.
\<close>

theorem C1_counterexample:
  "length (load_existing_results (store (final failing_second_run))) = 0 \<and>
   card (p_id ` set [demo_paper]) = 1 \<and>
   success_count (final stored_first_run) = 0 \<and>
   skip_count (final stored_second_run) = 1 \<and>
   success_count (final partial_first_run) = 1 \<and>
   skip_count (final partial_second_run) = 2"
  by (simp add: final_failing_second_run final_stored_first_run final_stored_second_run
        final_partial_first_run final_partial_second_run load_existing_results_def)


lemma final_first_run:
  "final first_run =
     \<lparr>store = Records [other_entry, to_dict (basic_result ascii_digit revised_paper)],
      calls = 0,
      results = [basic_result ascii_digit demo_paper, basic_result ascii_digit revised_paper],
      processed_count = 2, success_count = 2, fail_count = 0, skip_count = 0\<rparr>"
proof -
  have n: "of_ascii ''2507.99999'' \<noteq> p_id demo_paper"
    by (simp add: demo_paper_def of_ascii_def)
  show ?thesis
    using n
    by (simp add: first_run_def final_analyze_batch batch_loop_def batch_step_def
          date_given_demo_date load_existing_results_def initial_state_def analyze_single_def
          rules_only_def save_single_result_def extract_paper_id_other_entry
          extract_paper_id_to_dict r_id_basic_result p_id_revised_paper paper_id_def)
qed

lemma final_second_run:
  "final second_run =
     \<lparr>store = Records [other_entry, to_dict (basic_result ascii_digit revised_paper)],
      calls = 0, results = [],
      processed_count = 0, success_count = 0, fail_count = 0, skip_count = 2\<rparr>"
  by (simp add: second_run_def final_first_run final_analyze_batch batch_loop_def
        batch_step_def date_given_demo_date load_existing_results_def initial_state_def
        extract_paper_id_to_dict r_id_basic_result p_id_revised_paper)

lemma retry_late_early:
  "retry_loop late_client p 3 0 = (None, 3)"
  by (simp add: late_client_def numeral_3_eq_3)

lemma retry_late_later:
  "retry_loop late_client p 3 3 = (Some labelled_reply, 4)"
  by (simp add: late_client_def numeral_3_eq_3 labelled_reply_not_Nil)

lemma final_late_first_run:
  "final late_first_run =
     \<lparr>store = NoFile, calls = 3, results = [], processed_count = 1, success_count = 0,
      fail_count = 1, skip_count = 0\<rparr>"
  by (simp add: late_first_run_def final_analyze_batch batch_loop_def batch_step_def
        date_given_demo_date load_existing_results_def initial_state_def analyze_single_def
        assisted_def retry_late_early)

lemma final_late_second_run:
  "final late_second_run =
     \<lparr>store = Records [to_dict (result_of_response ascii_digit demo_paper labelled_reply)],
      calls = 4, results = [result_of_response ascii_digit demo_paper labelled_reply],
      processed_count = 1, success_count = 1, fail_count = 0, skip_count = 0\<rparr>"
  by (simp add: late_second_run_def final_late_first_run final_analyze_batch batch_loop_def
        batch_step_def date_given_demo_date load_existing_results_def initial_state_def
        analyze_single_def assisted_def retry_late_later save_single_result_def)

theorem C1_two_runs_witness:
  "date_given demo_date \<and>
   fail_count (final first_run) = 0 \<and>
   fail_count (final second_run) = 0 \<and>
   skip_count (final second_run) = skip_count (final first_run) + success_count (final first_run) \<and>
   store (final second_run) = store (final first_run) \<and>
   length (load_existing_results (store (final second_run))) = 2 \<and>
   distinct (map p_id [demo_paper]) \<and>
   fail_count (final late_first_run) = 1 \<and>
   fail_count (final late_second_run) = 0 \<and>
   skip_count (final late_second_run) =
     skip_count (final late_first_run) + success_count (final late_first_run) \<and>
   length (load_existing_results (store (final late_second_run))) = 1"
proof -
  note d = date_given_demo_date
  have f1: "fail_count (final first_run) = 0" by (simp add: final_first_run)
  have f2: "fail_count (final second_run) = 0" by (simp add: final_second_run)
  note a = C1_two_runs [OF first_run_def second_run_def]
  from a d f1 have a1: "skip_count (final second_run) =
      skip_count (final first_run) + success_count (final first_run)"
    by blast
  from a d f1 have a2: "store (final second_run) = store (final first_run)"
    by blast
  from a d f2 have "length (load_existing_results (store (final second_run))) =
      length (load_existing_results (Records [other_entry])) +
      card (p_id ` set [demo_paper, revised_paper] -
            set (map extract_paper_id_from_result (load_existing_results (Records [other_entry]))))"
    by blast
  moreover have "p_id ` set [demo_paper, revised_paper] -
      set (map extract_paper_id_from_result (load_existing_results (Records [other_entry]))) =
      {p_id demo_paper}"
    by (simp add: load_Records extract_paper_id_other_entry p_id_revised_paper)
       (simp add: demo_paper_def of_ascii_def)
  ultimately have a3: "length (load_existing_results (store (final second_run))) = 2"
    by (simp add: load_Records)
  have dp: "distinct (map p_id [demo_paper])" by simp
  have g1: "fail_count (final late_first_run) = 1" by (simp add: final_late_first_run)
  have g2: "fail_count (final late_second_run) = 0" by (simp add: final_late_second_run)
  note b = C1_two_runs [OF late_first_run_def late_second_run_def]
  from b d dp have b1: "skip_count (final late_second_run) =
      skip_count (final late_first_run) + success_count (final late_first_run)"
    by blast
  from b d g2 have "length (load_existing_results (store (final late_second_run))) =
      length (load_existing_results NoFile) +
      card (p_id ` set [demo_paper] -
            set (map extract_paper_id_from_result (load_existing_results NoFile)))"
    by blast
  then have b2: "length (load_existing_results (store (final late_second_run))) = 1"
    by (simp add: load_existing_results_def)
  from d f1 f2 a1 a2 a3 dp g1 g2 b1 b2 show ?thesis by blast
qed

text \<open>The statistics account for every paper, whatever the assistant does.\<close>

lemma analyze_batch_statistics:
  "skip_count (final (analyze_batch dg self papers date silent f n)) +
     processed_count (final (analyze_batch dg self papers date silent f n)) = length papers \<and>
   success_count (final (analyze_batch dg self papers date silent f n)) +
     fail_count (final (analyze_batch dg self papers date silent f n)) =
     processed_count (final (analyze_batch dg self papers date silent f n))"
proof -
  let ?E = "if date_given date
            then set (map extract_paper_id_from_result (load_existing_results f)) else {}"
  have "length (filter (\<lambda>p. date_given date \<and> p_id p \<in> ?E) papers) +
        length (filter (\<lambda>p. \<not> (date_given date \<and> p_id p \<in> ?E)) papers) = length papers"
    by (rule sum_length_filter_compl)
  moreover note success_fail_batch_loop [of dg self "date_given date" ?E "initial_state f n" papers]
  ultimately show ?thesis
    unfolding final_analyze_batch skip_count_batch_loop processed_count_batch_loop
    by (simp add: initial_state_simps)
qed

text \<open>An assistant that never gives a non-empty reply: every analysis fails.\<close>

lemma retry_loop_never_answers:
  assumes "\<forall>n. chat n p = Raised \<or> chat n p = TimedOut \<or> chat n p = Response []"
  shows "fst (retry_loop chat p k n) = None"
proof (induction k arbitrary: n)
  case 0
  show ?case by simp
next
  case (Suc k)
  from assms have "chat n p = Raised \<or> chat n p = TimedOut \<or> chat n p = Response []" by simp
  then show ?case using Suc.IH [of "Suc n"] by auto
qed

lemma analyze_single_never_answers:
  assumes "\<forall>n. chat n p = Raised \<or> chat n p = TimedOut \<or> chat n p = Response []"
  shows "fst (analyze_single dg (assisted chat) p n) = None"
proof -
  obtain x m where r: "retry_loop chat p 3 n = (x, m)" by (cases "retry_loop chat p 3 n")
  with retry_loop_never_answers [where chat = chat and p = p and k = 3 and n = n] assms
  have "x = None" by simp
  with r show ?thesis by (simp add: analyze_single_def assisted_def)
qed

lemma success_count_never_answers:
  assumes "\<forall>n p. chat n p = Raised \<or> chat n p = TimedOut \<or> chat n p = Response []"
  shows "success_count (batch_loop dg (assisted chat) dated E st ps) = success_count st"
proof (induction ps arbitrary: st)
  case Nil
  show ?case by (simp add: batch_loop_Nil)
next
  case (Cons p ps)
  have none: "fst (analyze_single dg (assisted chat) p (calls st)) = None"
    using assms analyze_single_never_answers [where chat = chat and p = p] by simp
  show ?case
    using Cons.IH [of "batch_step dg (assisted chat) dated E st p"] none
    by (cases rule: batch_step_cases [of dated p E dg "assisted chat" st])
       (simp_all add: batch_loop_Cons)
qed

lemma analyze_batch_never_answers:
  assumes "\<forall>n p. chat n p = Raised \<or> chat n p = TimedOut \<or> chat n p = Response []"
  shows "success_count (final (analyze_batch dg (assisted chat) papers date silent f n)) = 0 \<and>
         fail_count (final (analyze_batch dg (assisted chat) papers date silent f n)) =
           processed_count (final (analyze_batch dg (assisted chat) papers date silent f n)) \<and>
         returned (analyze_batch dg (assisted chat) papers date False f n) = Inr []"
proof -
  have s: "success_count (final (analyze_batch dg (assisted chat) papers date silent f n)) = 0"
    for silent
    unfolding final_analyze_batch using success_count_never_answers [where chat = chat] assms
    by (simp add: initial_state_simps)
  have r: "results (final (analyze_batch dg (assisted chat) papers date False f n)) = []"
    using length_results_batch_loop [of dg "assisted chat" "date_given date"
        "if date_given date
         then set (map extract_paper_id_from_result (load_existing_results f)) else {}"
        "initial_state f n" papers]
      s [of False]
    unfolding final_analyze_batch by (simp add: initial_state_simps)
  show ?thesis
    using s [of silent] r analyze_batch_statistics [of dg "assisted chat" papers date silent f n]
    by (simp add: returned_analyze_batch_not_silent)
qed

text \<open>
  C2 at a failing input: one paper, an assistant that raises at every call, silent mode. The
  loop ends with no success and one failure counted, and then the call raises
  UnboundLocalError instead of returning; the same call when not silent returns the empty
  list.
\<close>

theorem C2_silent_batch_raises:
  "returned (analyze_batch dg (assisted failing_client) [demo_paper] demo_date True NoFile 0) =
     Inl UnboundLocalError \<and>
   success_count (final (analyze_batch dg (assisted failing_client) [demo_paper] demo_date True
     NoFile 0)) = 0 \<and>
   fail_count (final (analyze_batch dg (assisted failing_client) [demo_paper] demo_date True
     NoFile 0)) = 1 \<and>
   processed_count (final (analyze_batch dg (assisted failing_client) [demo_paper] demo_date True
     NoFile 0)) = 1 \<and>
   skip_count (final (analyze_batch dg (assisted failing_client) [demo_paper] demo_date True
     NoFile 0)) = 0 \<and>
   returned (analyze_batch dg (assisted failing_client) [demo_paper] demo_date False NoFile 0) =
     Inr []"
  by (simp add: analyze_batch_def Let_def batch_loop_def batch_step_def date_given_demo_date
        load_existing_results_def initial_state_def analyze_single_def assisted_def
        retry_failing)


section \<open>The cleaner\<close>

lemma extract_paper_info_Some:
  assumes "extract_paper_info fmt item = Some r"
  shows "\<exists>item_d paper_data raw_title authors_str.
           item = JObj item_d \<and>
           dict_get item_d (of_ascii ''paper'') item = JObj paper_data \<and>
           dict_get paper_data (of_ascii ''title'') (JStr []) = JStr raw_title \<and>
           py_truthy (dict_get paper_data (of_ascii ''id'') (JStr [])) \<and>
           py_replace_char 10 32 (py_strip raw_title) \<noteq> [] \<and>
           (if authors_list_of (dict_get paper_data (of_ascii ''authors'') (JArr [])) \<noteq> []
            then py_join (of_ascii '', '')
                   (authors_list_of (dict_get paper_data (of_ascii ''authors'') (JArr [])))
            else Some unknown_author) = Some authors_str \<and>
           r = [(of_ascii ''id'', dict_get paper_data (of_ascii ''id'') (JStr [])),
                (of_ascii ''title'', JStr (py_replace_char 10 32 (py_strip raw_title))),
                (of_ascii ''translation'', JStr (py_replace_char 10 32 (py_strip raw_title))),
                (of_ascii ''url'',
                   dict_get paper_data (of_ascii ''url'')
                     (JStr (of_ascii ''https://arxiv.org/abs/'' @
                            format_value fmt (dict_get paper_data (of_ascii ''id'') (JStr []))))),
                (of_ascii ''authors'', JStr authors_str),
                (of_ascii ''publish_date'',
                   py_or (dict_get paper_data (of_ascii ''publishedAt'') JNull)
                     (py_or (dict_get paper_data (of_ascii ''publishedDate'') JNull)
                        (py_or (dict_get paper_data (of_ascii ''published'') JNull) (JStr [])))),
                (of_ascii ''summary'', dict_get paper_data (of_ascii ''summary'') (JStr [])),
                (of_ascii ''github_repo'', dict_get paper_data (of_ascii ''githubRepo'') (JStr [])),
                (of_ascii ''project_page'', dict_get paper_data (of_ascii ''projectPage'') (JStr [])),
                (of_ascii ''model_function'', JStr [])]"
  using assms unfolding extract_paper_info_def Let_def
  by (auto split: json.splits if_splits option.splits)


lemma extract_demo_record:
  "extract_paper_info fmt demo_record =
     Some [(of_ascii ''id'', JStr (of_ascii ''1234.5678'')),
           (of_ascii ''title'', JStr (of_ascii ''A Title'')),
           (of_ascii ''translation'', JStr (of_ascii ''A Title'')),
           (of_ascii ''url'', JStr (of_ascii ''https://arxiv.org/abs/1234.5678'')),
           (of_ascii ''authors'', JStr (of_ascii ''Jane Doe'')),
           (of_ascii ''publish_date'', JStr []),
           (of_ascii ''summary'', JStr []),
           (of_ascii ''github_repo'', JStr []),
           (of_ascii ''project_page'', JStr []),
           (of_ascii ''model_function'', JStr [])]"
  by (simp add: extract_paper_info_def demo_record_def dict_get_def of_ascii_def Let_def
        py_strip_def py_isspace_def py_replace_char_def authors_list_of_def py_or_def
        format_value_def)

lemma extract_untitled_record: "extract_paper_info fmt untitled_record = None"
  by (simp add: extract_paper_info_def untitled_record_def dict_get_def of_ascii_def Let_def
        py_strip_def py_isspace_def py_replace_char_def)

lemma clean_with_rules_Nil: "clean_with_rules fmt [] = []"
  by (simp add: clean_with_rules_def)

lemma clean_with_rules_Cons:
  "clean_with_rules fmt (item # raw) =
     (case extract_paper_info fmt item of
        None \<Rightarrow> clean_with_rules fmt raw
      | Some r \<Rightarrow> r # clean_with_rules fmt raw)"
  by (simp add: clean_with_rules_def split: option.splits)

lemma clean_with_rules_append:
  "clean_with_rules fmt (xs @ ys) = clean_with_rules fmt xs @ clean_with_rules fmt ys"
  by (induction xs) (auto simp: clean_with_rules_Nil clean_with_rules_Cons split: option.splits)

lemma set_clean_with_rules:
  "set (clean_with_rules fmt raw) = {r. \<exists>item \<in> set raw. extract_paper_info fmt item = Some r}"
  by (induction raw) (auto simp: clean_with_rules_Nil clean_with_rules_Cons split: option.splits)

lemma length_clean_with_rules:
  "length (clean_with_rules fmt raw) =
     length (filter (\<lambda>item. extract_paper_info fmt item \<noteq> None) raw)"
  by (induction raw) (auto simp: clean_with_rules_Nil clean_with_rules_Cons split: option.splits)

lemma py_replace_char_Nil_iff: "py_replace_char a b s = [] \<longleftrightarrow> s = []"
  by (simp add: py_replace_char_def)

lemma extract_paper_info_dropped:
  assumes "item = JObj item_d"
    and "dict_get item_d (of_ascii ''paper'') item = JObj paper_data"
    and "map_of paper_data (of_ascii ''id'') = None \<or>
         \<not> py_truthy (dict_get paper_data (of_ascii ''id'') (JStr [])) \<or>
         map_of paper_data (of_ascii ''title'') = None \<or>
         (\<exists>t. dict_get paper_data (of_ascii ''title'') (JStr []) = JStr t \<and> py_strip t = [])"
  shows "extract_paper_info fmt item = None"
proof -
  have "\<not> py_truthy (dict_get paper_data (of_ascii ''id'') (JStr [])) \<or>
        (\<exists>t. dict_get paper_data (of_ascii ''title'') (JStr []) = JStr t \<and> py_strip t = [])"
    using assms(3) by (auto simp: dict_get_def py_strip_Nil)
  then show ?thesis
    using assms(1,2)
    by (auto simp: extract_paper_info_def Let_def py_replace_char_Nil_iff split: json.splits)
qed

lemma extract_paper_info_id_title:
  assumes "extract_paper_info fmt item = Some r"
  shows "\<exists>v t. map_of r (of_ascii ''id'') = Some v \<and> py_truthy v \<and> v \<noteq> JStr [] \<and>
               map_of r (of_ascii ''title'') = Some (JStr t) \<and> t \<noteq> []"
proof -
  from extract_paper_info_Some [OF assms] obtain paper_data raw_title rest where
    t: "py_truthy (dict_get paper_data (of_ascii ''id'') (JStr []))" and
    n: "py_replace_char 10 32 (py_strip raw_title) \<noteq> []" and
    r: "r = (of_ascii ''id'', dict_get paper_data (of_ascii ''id'') (JStr [])) #
            (of_ascii ''title'', JStr (py_replace_char 10 32 (py_strip raw_title))) # rest"
    by blast
  have k: "of_ascii ''title'' \<noteq> of_ascii ''id''" by (simp add: of_ascii_def)
  have "dict_get paper_data (of_ascii ''id'') (JStr []) \<noteq> JStr []" using t by auto
  with t n k show ?thesis unfolding r by simp
qed


text \<open>
  C7: every record in the output of the rule-based extraction has an id that is true in
  Python's sense (for a string: not empty) and a non-empty title; a raw item whose id is
  missing or empty, or whose title is missing or blank, gives None in \<open>extract_paper_info\<close>
  (a value, not an exception) and leaves no trace in the output; the output has one record
  for each item that gives a dictionary.
\<close>

theorem C7_rules_drop_incomplete:
  "(\<forall>r \<in> set (clean_with_rules fmt raw_data).
      \<exists>v t. map_of r (of_ascii ''id'') = Some v \<and> py_truthy v \<and> v \<noteq> JStr [] \<and>
            map_of r (of_ascii ''title'') = Some (JStr t) \<and> t \<noteq> []) \<and>
   (item = JObj item_d \<and> dict_get item_d (of_ascii ''paper'') item = JObj paper_data \<and>
    (map_of paper_data (of_ascii ''id'') = None \<or>
     \<not> py_truthy (dict_get paper_data (of_ascii ''id'') (JStr [])) \<or>
     map_of paper_data (of_ascii ''title'') = None \<or>
     (\<exists>t. dict_get paper_data (of_ascii ''title'') (JStr []) = JStr t \<and> py_strip t = [])) \<longrightarrow>
      extract_paper_info fmt item = None \<and>
      clean_with_rules fmt (xs @ item # ys) = clean_with_rules fmt (xs @ ys)) \<and>
   length (clean_with_rules fmt raw_data) =
     length (filter (\<lambda>item. extract_paper_info fmt item \<noteq> None) raw_data)"
proof (intro conjI ballI impI)
  fix r assume "r \<in> set (clean_with_rules fmt raw_data)"
  then obtain it where "extract_paper_info fmt it = Some r"
    by (auto simp: set_clean_with_rules)
  then show "\<exists>v t. map_of r (of_ascii ''id'') = Some v \<and> py_truthy v \<and> v \<noteq> JStr [] \<and>
                  map_of r (of_ascii ''title'') = Some (JStr t) \<and> t \<noteq> []"
    by (rule extract_paper_info_id_title)
next
  assume a: "item = JObj item_d \<and> dict_get item_d (of_ascii ''paper'') item = JObj paper_data \<and>
    (map_of paper_data (of_ascii ''id'') = None \<or>
     \<not> py_truthy (dict_get paper_data (of_ascii ''id'') (JStr [])) \<or>
     map_of paper_data (of_ascii ''title'') = None \<or>
     (\<exists>t. dict_get paper_data (of_ascii ''title'') (JStr []) = JStr t \<and> py_strip t = []))"
  then have n: "extract_paper_info fmt item = None"
    by (intro extract_paper_info_dropped [of item item_d paper_data]) blast+
  then show "extract_paper_info fmt item = None" .
  from n show "clean_with_rules fmt (xs @ item # ys) = clean_with_rules fmt (xs @ ys)"
    by (simp add: clean_with_rules_append clean_with_rules_Cons)
next
  show "length (clean_with_rules fmt raw_data) =
     length (filter (\<lambda>item. extract_paper_info fmt item \<noteq> None) raw_data)"
    by (rule length_clean_with_rules)
qed

theorem C7_rules_drop_incomplete_witness:
  "clean_with_rules any_format [demo_record, untitled_record] =
     clean_with_rules any_format [demo_record] \<and>
   extract_paper_info any_format untitled_record = None \<and>
   length (clean_with_rules any_format [demo_record, untitled_record]) = 1 \<and>
   (\<exists>v t. map_of (hd (clean_with_rules any_format [demo_record, untitled_record]))
             (of_ascii ''id'') = Some v \<and> py_truthy v \<and> v \<noteq> JStr [] \<and>
          map_of (hd (clean_with_rules any_format [demo_record, untitled_record]))
             (of_ascii ''title'') = Some (JStr t) \<and> t \<noteq> [])"
proof -
  let ?pd = "[(of_ascii ''id'', JStr (of_ascii ''1234.9999'')), (of_ascii ''title'', JStr [32, 10])]"
  have h: "untitled_record = JObj [(of_ascii ''paper'', JObj ?pd)] \<and>
           dict_get [(of_ascii ''paper'', JObj ?pd)] (of_ascii ''paper'') untitled_record = JObj ?pd \<and>
           (map_of ?pd (of_ascii ''id'') = None \<or>
            \<not> py_truthy (dict_get ?pd (of_ascii ''id'') (JStr [])) \<or>
            map_of ?pd (of_ascii ''title'') = None \<or>
            (\<exists>t. dict_get ?pd (of_ascii ''title'') (JStr []) = JStr t \<and> py_strip t = []))"
    by (simp add: untitled_record_def dict_get_def of_ascii_def py_strip_def py_isspace_def)
  note t = C7_rules_drop_incomplete [of any_format "[demo_record, untitled_record]"
      untitled_record "[(of_ascii ''paper'', JObj ?pd)]" ?pd "[demo_record]" "[]"]
  from t h have a: "extract_paper_info any_format untitled_record = None \<and>
      clean_with_rules any_format ([demo_record] @ untitled_record # []) =
      clean_with_rules any_format ([demo_record] @ [])"
    by blast
  have f: "filter (\<lambda>item. extract_paper_info any_format item \<noteq> None)
             [demo_record, untitled_record] = [demo_record]"
    by (simp add: extract_demo_record extract_untitled_record)
  from t have "length (clean_with_rules any_format [demo_record, untitled_record]) =
      length (filter (\<lambda>item. extract_paper_info any_format item \<noteq> None)
                [demo_record, untitled_record])"
    by blast
  then have l: "length (clean_with_rules any_format [demo_record, untitled_record]) = 1"
    unfolding f by simp
  from t have b: "\<forall>r \<in> set (clean_with_rules any_format [demo_record, untitled_record]).
      \<exists>v t. map_of r (of_ascii ''id'') = Some v \<and> py_truthy v \<and> v \<noteq> JStr [] \<and>
            map_of r (of_ascii ''title'') = Some (JStr t) \<and> t \<noteq> []"
    by blast
  from l have "clean_with_rules any_format [demo_record, untitled_record] \<noteq> []"
    by auto
  then have "hd (clean_with_rules any_format [demo_record, untitled_record]) \<in>
      set (clean_with_rules any_format [demo_record, untitled_record])"
    by (rule hd_in_set)
  with b have c: "\<exists>v t. map_of (hd (clean_with_rules any_format [demo_record, untitled_record]))
             (of_ascii ''id'') = Some v \<and> py_truthy v \<and> v \<noteq> JStr [] \<and>
          map_of (hd (clean_with_rules any_format [demo_record, untitled_record]))
             (of_ascii ''title'') = Some (JStr t) \<and> t \<noteq> []"
    by (rule bspec)
  from a l c show ?thesis by simp
qed

text \<open>
  C8: the rule-based extraction of the record with id 1234.5678, title "A Title" followed by
  a newline, and the one author Jane Doe, gives the id, the title "A Title", the same
  translation, the author string "Jane Doe" and the url https://arxiv.org/abs/1234.5678. In
  general the translation is the title; the url is the fixed prefix followed by the id when
  the raw record has no url; the authors are the sentinel when the list of names is empty
  and the names joined by a comma and a space otherwise.
\<close>

theorem C8_rules_example:
  "extract_paper_info fmt demo_record =
     Some [(of_ascii ''id'', JStr (of_ascii ''1234.5678'')),
           (of_ascii ''title'', JStr (of_ascii ''A Title'')),
           (of_ascii ''translation'', JStr (of_ascii ''A Title'')),
           (of_ascii ''url'', JStr (of_ascii ''https://arxiv.org/abs/1234.5678'')),
           (of_ascii ''authors'', JStr (of_ascii ''Jane Doe'')),
           (of_ascii ''publish_date'', JStr []),
           (of_ascii ''summary'', JStr []),
           (of_ascii ''github_repo'', JStr []),
           (of_ascii ''project_page'', JStr []),
           (of_ascii ''model_function'', JStr [])] \<and>
   clean_with_rules fmt [demo_record] = [the (extract_paper_info fmt demo_record)] \<and>
   py_join (of_ascii '', '') [JStr a, JStr b] = Some (a @ of_ascii '', '' @ b) \<and>
   (extract_paper_info fmt item = Some r \<and> item = JObj item_d \<and>
    dict_get item_d (of_ascii ''paper'') item = JObj paper_data \<longrightarrow>
      map_of r (of_ascii ''translation'') = map_of r (of_ascii ''title'') \<and>
      (map_of paper_data (of_ascii ''url'') = None \<longrightarrow>
         map_of r (of_ascii ''url'') =
           Some (JStr (of_ascii ''https://arxiv.org/abs/'' @
                       format_value fmt (dict_get paper_data (of_ascii ''id'') (JStr []))))) \<and>
      (\<forall>s. map_of paper_data (of_ascii ''url'') = None \<and>
           map_of paper_data (of_ascii ''id'') = Some (JStr s) \<longrightarrow>
         map_of r (of_ascii ''url'') = Some (JStr (of_ascii ''https://arxiv.org/abs/'' @ s))) \<and>
      (authors_list_of (dict_get paper_data (of_ascii ''authors'') (JArr [])) = [] \<longrightarrow>
         map_of r (of_ascii ''authors'') = Some (JStr unknown_author)) \<and>
      (authors_list_of (dict_get paper_data (of_ascii ''authors'') (JArr [])) \<noteq> [] \<longrightarrow>
         (\<exists>s. py_join (of_ascii '', '')
                 (authors_list_of (dict_get paper_data (of_ascii ''authors'') (JArr []))) = Some s \<and>
              map_of r (of_ascii ''authors'') = Some (JStr s))))"
proof (intro conjI impI)
  show "extract_paper_info fmt demo_record =
     Some [(of_ascii ''id'', JStr (of_ascii ''1234.5678'')),
           (of_ascii ''title'', JStr (of_ascii ''A Title'')),
           (of_ascii ''translation'', JStr (of_ascii ''A Title'')),
           (of_ascii ''url'', JStr (of_ascii ''https://arxiv.org/abs/1234.5678'')),
           (of_ascii ''authors'', JStr (of_ascii ''Jane Doe'')),
           (of_ascii ''publish_date'', JStr []),
           (of_ascii ''summary'', JStr []),
           (of_ascii ''github_repo'', JStr []),
           (of_ascii ''project_page'', JStr []),
           (of_ascii ''model_function'', JStr [])]"
    by (rule extract_demo_record)
  show "clean_with_rules fmt [demo_record] = [the (extract_paper_info fmt demo_record)]"
    by (simp add: clean_with_rules_Cons clean_with_rules_Nil extract_demo_record)
  show "py_join (of_ascii '', '') [JStr a, JStr b] = Some (a @ of_ascii '', '' @ b)"
    by simp
next
  assume a: "extract_paper_info fmt item = Some r \<and> item = JObj item_d \<and>
    dict_get item_d (of_ascii ''paper'') item = JObj paper_data"
  then have e: "extract_paper_info fmt item = Some r"
    and a2: "item = JObj item_d"
    and a3: "dict_get item_d (of_ascii ''paper'') item = JObj paper_data"
    by blast+
  from extract_paper_info_Some [OF e] a2 a3 obtain raw_title authors_str where
    au: "(if authors_list_of (dict_get paper_data (of_ascii ''authors'') (JArr [])) \<noteq> []
          then py_join (of_ascii '', '')
                 (authors_list_of (dict_get paper_data (of_ascii ''authors'') (JArr [])))
          else Some unknown_author) = Some authors_str" and
    r: "r = [(of_ascii ''id'', dict_get paper_data (of_ascii ''id'') (JStr [])),
                (of_ascii ''title'', JStr (py_replace_char 10 32 (py_strip raw_title))),
                (of_ascii ''translation'', JStr (py_replace_char 10 32 (py_strip raw_title))),
                (of_ascii ''url'',
                   dict_get paper_data (of_ascii ''url'')
                     (JStr (of_ascii ''https://arxiv.org/abs/'' @
                            format_value fmt (dict_get paper_data (of_ascii ''id'') (JStr []))))),
                (of_ascii ''authors'', JStr authors_str),
                (of_ascii ''publish_date'',
                   py_or (dict_get paper_data (of_ascii ''publishedAt'') JNull)
                     (py_or (dict_get paper_data (of_ascii ''publishedDate'') JNull)
                        (py_or (dict_get paper_data (of_ascii ''published'') JNull) (JStr [])))),
                (of_ascii ''summary'', dict_get paper_data (of_ascii ''summary'') (JStr [])),
                (of_ascii ''github_repo'', dict_get paper_data (of_ascii ''githubRepo'') (JStr [])),
                (of_ascii ''project_page'', dict_get paper_data (of_ascii ''projectPage'') (JStr [])),
                (of_ascii ''model_function'', JStr [])]"
    by auto
  have tr: "map_of r (of_ascii ''translation'') =
              Some (JStr (py_replace_char 10 32 (py_strip raw_title)))"
    and ti: "map_of r (of_ascii ''title'') =
              Some (JStr (py_replace_char 10 32 (py_strip raw_title)))"
    and ur: "map_of r (of_ascii ''url'') =
              Some (dict_get paper_data (of_ascii ''url'')
                     (JStr (of_ascii ''https://arxiv.org/abs/'' @
                            format_value fmt (dict_get paper_data (of_ascii ''id'') (JStr [])))))"
    and ar: "map_of r (of_ascii ''authors'') = Some (JStr authors_str)"
    unfolding r by (simp_all add: of_ascii_def)
  show "map_of r (of_ascii ''translation'') = map_of r (of_ascii ''title'')"
    using tr ti by simp
  show "map_of r (of_ascii ''url'') =
           Some (JStr (of_ascii ''https://arxiv.org/abs/'' @
                       format_value fmt (dict_get paper_data (of_ascii ''id'') (JStr []))))"
    if "map_of paper_data (of_ascii ''url'') = None"
    using that ur by (simp add: dict_get_def)
  show "\<forall>s. map_of paper_data (of_ascii ''url'') = None \<and>
           map_of paper_data (of_ascii ''id'') = Some (JStr s) \<longrightarrow>
         map_of r (of_ascii ''url'') = Some (JStr (of_ascii ''https://arxiv.org/abs/'' @ s))"
    using ur by (simp add: dict_get_def format_value_def)
  show "map_of r (of_ascii ''authors'') = Some (JStr unknown_author)"
    if "authors_list_of (dict_get paper_data (of_ascii ''authors'') (JArr [])) = []"
    using that au ar by simp
  show "\<exists>s. py_join (of_ascii '', '')
                 (authors_list_of (dict_get paper_data (of_ascii ''authors'') (JArr []))) = Some s \<and>
              map_of r (of_ascii ''authors'') = Some (JStr s)"
    if "authors_list_of (dict_get paper_data (of_ascii ''authors'') (JArr [])) \<noteq> []"
    using that au ar by simp
qed


lemma extract_anonymous_record:
  "extract_paper_info fmt anonymous_record =
     Some [(of_ascii ''id'', JStr (of_ascii ''1234.0001'')),
           (of_ascii ''title'', JStr (of_ascii ''B'')),
           (of_ascii ''translation'', JStr (of_ascii ''B'')),
           (of_ascii ''url'', JStr (of_ascii ''https://arxiv.org/abs/1234.0001'')),
           (of_ascii ''authors'', JStr unknown_author),
           (of_ascii ''publish_date'', JStr []),
           (of_ascii ''summary'', JStr []),
           (of_ascii ''github_repo'', JStr []),
           (of_ascii ''project_page'', JStr []),
           (of_ascii ''model_function'', JStr [])]"
  by (simp add: extract_paper_info_def anonymous_record_def dict_get_def of_ascii_def Let_def
        py_strip_def py_isspace_def py_replace_char_def authors_list_of_def py_or_def
        format_value_def)

theorem C8_rules_example_witness:
  "map_of (the (extract_paper_info any_format demo_record)) (of_ascii ''url'') =
     Some (JStr (of_ascii ''https://arxiv.org/abs/'' @ of_ascii ''1234.5678'')) \<and>
   map_of (the (extract_paper_info any_format demo_record)) (of_ascii ''authors'') =
     Some (JStr (of_ascii ''Jane Doe'')) \<and>
   map_of (the (extract_paper_info any_format anonymous_record)) (of_ascii ''authors'') =
     Some (JStr unknown_author) \<and>
   map_of (the (extract_paper_info any_format anonymous_record)) (of_ascii ''translation'') =
     map_of (the (extract_paper_info any_format anonymous_record)) (of_ascii ''title'')"
proof -
  let ?pd = "[(of_ascii ''id'', JStr (of_ascii ''1234.5678'')),
              (of_ascii ''title'', JStr (of_ascii ''A Title'' @ [10])),
              (of_ascii ''authors'',
                 JArr [JObj [(of_ascii ''name'', JStr (of_ascii ''Jane Doe''))]])]"
  let ?d = "[(of_ascii ''paper'', JObj ?pd)]"
  let ?r = "the (extract_paper_info any_format demo_record)"
  let ?ad = "[(of_ascii ''id'', JStr (of_ascii ''1234.0001'')),
              (of_ascii ''title'', JStr (of_ascii ''B''))]"
  let ?ar = "the (extract_paper_info any_format anonymous_record)"
  have h1: "extract_paper_info any_format demo_record = Some ?r \<and> demo_record = JObj ?d \<and>
            dict_get ?d (of_ascii ''paper'') demo_record = JObj ?pd"
    by (simp add: extract_demo_record) (simp add: demo_record_def dict_get_def of_ascii_def)
  have u1: "map_of ?pd (of_ascii ''url'') = None \<and>
            map_of ?pd (of_ascii ''id'') = Some (JStr (of_ascii ''1234.5678''))"
    by (simp add: of_ascii_def)
  have l1: "authors_list_of (dict_get ?pd (of_ascii ''authors'') (JArr [])) =
              [JStr (of_ascii ''Jane Doe'')]"
    by (simp add: dict_get_def of_ascii_def authors_list_of_def)
  note t1 = C8_rules_example [of any_format "[]" "[]" demo_record ?r ?d ?pd]
  from t1 h1 u1 have url: "map_of ?r (of_ascii ''url'') =
      Some (JStr (of_ascii ''https://arxiv.org/abs/'' @ of_ascii ''1234.5678''))"
    by blast
  from t1 h1 l1 have "\<exists>s. py_join (of_ascii '', '') [JStr (of_ascii ''Jane Doe'')] = Some s \<and>
      map_of ?r (of_ascii ''authors'') = Some (JStr s)"
    by (metis list.distinct(1))
  then have au: "map_of ?r (of_ascii ''authors'') = Some (JStr (of_ascii ''Jane Doe''))"
    by simp
  have h2: "extract_paper_info any_format anonymous_record = Some ?ar \<and>
            anonymous_record = JObj ?ad \<and>
            dict_get ?ad (of_ascii ''paper'') anonymous_record = JObj ?ad"
    by (simp add: extract_anonymous_record) (simp add: anonymous_record_def dict_get_def of_ascii_def)
  have l2: "authors_list_of (dict_get ?ad (of_ascii ''authors'') (JArr [])) = []"
    by (simp add: dict_get_def of_ascii_def authors_list_of_def)
  note t2 = C8_rules_example [of any_format "[]" "[]" anonymous_record ?ar ?ad ?ad]
  from t2 h2 l2 have s: "map_of ?ar (of_ascii ''authors'') = Some (JStr unknown_author)"
    by blast
  from t2 h2 have tr: "map_of ?ar (of_ascii ''translation'') = map_of ?ar (of_ascii ''title'')"
    by blast
  from url au s tr show ?thesis by blast
qed

text \<open>
  C4 at a failing input: assistant-based cleaning is selected and the assistant answers
  with a non-empty text. The parser gives no record, and the cleaner returns the empty
  list: there is no fallback, although rule-based extraction gives one record for the same
  input. The fallback is taken only when the reply is empty or the call raises.
\<close>

theorem C4_no_fallback_on_empty_parse:
  "clean_data fmt answering_cleaner [demo_record] = [] \<and>
   clean_with_rules fmt [demo_record] \<noteq> [] \<and>
   clean_with_ai fmt (\<lambda>raw_data. Response []) raw = clean_with_rules fmt raw \<and>
   clean_with_ai fmt (\<lambda>raw_data. Raised) raw = clean_with_rules fmt raw"
  by (simp add: clean_data_def answering_cleaner_def clean_with_ai_def
        cleaner_parse_ai_response_def of_ascii_def clean_with_rules_Cons extract_demo_record)


text \<open>In general: a non-empty reply always gives the empty list.\<close>

lemma clean_with_ai_answered:
  "chat raw = Response response \<Longrightarrow> response \<noteq> [] \<Longrightarrow> clean_with_ai fmt chat raw = []"
  by (simp add: clean_with_ai_def cleaner_parse_ai_response_def)


end
